theory Spec2Isabelle
  imports Complex_Main "HOL-Library.Signed_Division"
begin

section \<open>Numbers\<close>

text \<open>
  The C++ type \<^verbatim>\<open>int\<close> is modelled by \<^typ>\<open>int\<close>: every quantity of the widget
  (a palette count, a pixel coordinate, a row or column number) is far from the 32-bit
  limits, and no claim below depends on wrap-around. The floating types \<^verbatim>\<open>float\<close>,
  \<^verbatim>\<open>qreal\<close> and \<^verbatim>\<open>color_float\<close> are modelled by \<^typ>\<open>real\<close>: the
  arithmetic is exact, rounding of the machine formats is not represented.

  A division by zero is a fault of the model. For \<^verbatim>\<open>int\<close> operands C++ leaves it
  undefined; for floating operands the quotient is not a finite number and the code
  converts it to \<^verbatim>\<open>int\<close>, which is undefined as well. The model says nothing
  about what the program does from there on: a theorem about a later result leaves
  such a state out by hypothesis.
\<close>

datatype fault = DivisionByZero

definition fbind :: "fault + 'a \<Rightarrow> ('a \<Rightarrow> fault + 'b) \<Rightarrow> fault + 'b" where
  "fbind m f = (case m of Inl e \<Rightarrow> Inl e | Inr x \<Rightarrow> f x)"

text \<open>Conversion of a floating value to \<^verbatim>\<open>int\<close> truncates toward zero.\<close>

definition to_int :: "real \<Rightarrow> int" where
  "to_int r = (if 0 \<le> r then \<lfloor>r\<rfloor> else \<lceil>r\<rceil>)"

text \<open>\<^verbatim>\<open>a / b\<close> on floating operands.\<close>

definition fdiv :: "real \<Rightarrow> real \<Rightarrow> fault + real" where
  "fdiv a b = (if b = 0 then Inl DivisionByZero else Inr (a / b))"

text \<open>\<^verbatim>\<open>a / b\<close> and \<^verbatim>\<open>a % b\<close> on \<^verbatim>\<open>int\<close> operands truncate toward zero.\<close>

definition idiv :: "int \<Rightarrow> int \<Rightarrow> fault + int" where
  "idiv a b = (if b = 0 then Inl DivisionByZero else Inr (a sdiv b))"

definition imod :: "int \<Rightarrow> int \<Rightarrow> fault + int" where
  "imod a b = (if b = 0 then Inl DivisionByZero else Inr (a smod b))"

text \<open>\<^verbatim>\<open>std::fmod(x, y)\<close> for \<open>y \<noteq> 0\<close>: the remainder with the sign of \<open>x\<close>.\<close>

definition fmod :: "real \<Rightarrow> real \<Rightarrow> real" where
  "fmod x y = x - of_int (to_int (x / y)) * y"

text \<open>Qt's \<^verbatim>\<open>qAbs\<close>, \<^verbatim>\<open>qMin\<close>, \<^verbatim>\<open>qMax\<close>, \<^verbatim>\<open>qBound(min, val, max)\<close>
  and \<^verbatim>\<open>qRound\<close>.\<close>

definition qAbs :: "real \<Rightarrow> real" where
  "qAbs x = (if 0 \<le> x then x else - x)"

definition qMin :: "'a::linorder \<Rightarrow> 'a \<Rightarrow> 'a" where
  "qMin a b = (if a < b then a else b)"

definition qMax :: "'a::linorder \<Rightarrow> 'a \<Rightarrow> 'a" where
  "qMax a b = (if a < b then b else a)"

definition qBound :: "'a::linorder \<Rightarrow> 'a \<Rightarrow> 'a \<Rightarrow> 'a" where
  "qBound lo val hi = qMax lo (qMin hi val)"

definition qRound :: "real \<Rightarrow> int" where
  "qRound d =
     (if 0 \<le> d then to_int (d + 1 / 2)
      else to_int (d - of_int (to_int (d - 1)) + 1 / 2) + to_int (d - 1))"

section \<open>Colours\<close>

text \<open>
  A \<^verbatim>\<open>QColor\<close> holds a colour spec and four 16-bit components. The default
  constructor gives the invalid colour, opaque black in its components.
\<close>

datatype Spec = Invalid | Rgb

datatype QColor = QColor (cspec: Spec) (alpha16: nat) (red16: nat) (green16: nat) (blue16: nat)

definition USHRT_MAX :: nat where
  "USHRT_MAX = 65535"

definition QColor_default :: QColor where
  "QColor_default = QColor Invalid USHRT_MAX 0 0 0"

text \<open>
  \<^verbatim>\<open>QColor::fromRgbF\<close> requires every argument in \<open>[0, 1]\<close> and stores each one
  rounded to 16 bits. Outside that range the versions of Qt differ; the model gives no
  colour there.
\<close>

definition unit_range :: "real \<Rightarrow> bool" where
  "unit_range v = (0 \<le> v \<and> v \<le> 1)"

definition to16 :: "real \<Rightarrow> nat" where
  "to16 v = nat (qRound (v * real USHRT_MAX))"

definition fromRgbF :: "real \<Rightarrow> real \<Rightarrow> real \<Rightarrow> real \<Rightarrow> QColor option" where
  "fromRgbF r g b a =
     (if unit_range r \<and> unit_range g \<and> unit_range b \<and> unit_range a
      then Some (QColor Rgb (to16 a) (to16 r) (to16 g) (to16 b))
      else None)"

definition redF :: "QColor \<Rightarrow> real" where
  "redF c = real (red16 c) / real USHRT_MAX"

definition greenF :: "QColor \<Rightarrow> real" where
  "greenF c = real (green16 c) / real USHRT_MAX"

definition blueF :: "QColor \<Rightarrow> real" where
  "blueF c = real (blue16 c) / real USHRT_MAX"

definition alphaF :: "QColor \<Rightarrow> real" where
  "alphaF c = real (alpha16 c) / real USHRT_MAX"

subsection \<open>color\_utils.cpp\<close>

text \<open>
  The sextant chain shared by \<^verbatim>\<open>color_from_lch\<close> and \<^verbatim>\<open>color_from_hsl\<close>:
  \<^verbatim>\<open>col\<close> starts as the default colour and is assigned in the first branch whose
  test holds. The first test is \<^verbatim>\<open>h1 >= 0 && h1 < 1\<close>, the later ones only
  \<^verbatim>\<open>h1 < n\<close>.
\<close>

definition sextant :: "real \<Rightarrow> real \<Rightarrow> real \<Rightarrow> QColor option" where
  "sextant h1 chroma x =
     (if 0 \<le> h1 \<and> h1 < 1 then fromRgbF chroma x 0 1
      else if h1 < 2 then fromRgbF x chroma 0 1
      else if h1 < 3 then fromRgbF 0 chroma x 1
      else if h1 < 4 then fromRgbF 0 x chroma 1
      else if h1 < 5 then fromRgbF x 0 chroma 1
      else if h1 < 6 then fromRgbF chroma 0 x 1
      else Some QColor_default)"

text \<open>
  \<^verbatim>\<open>color_lumaF\<close> is declared in a header that is not among the sources; it is a
  parameter of \<open>color_from_lch\<close>.
\<close>

definition color_from_lch ::
  "(QColor \<Rightarrow> real) \<Rightarrow> real \<Rightarrow> real \<Rightarrow> real \<Rightarrow> real \<Rightarrow> QColor option" where
  "color_from_lch color_lumaF hue chroma luma alpha =
     (let h1 = hue * 6;
          x = chroma * (1 - qAbs (fmod h1 2 - 1))
      in case sextant h1 chroma x of
           None \<Rightarrow> None
         | Some col \<Rightarrow>
             (let m = luma - color_lumaF col
              in fromRgbF (qBound 0 (redF col + m) 1)
                          (qBound 0 (greenF col + m) 1)
                          (qBound 0 (blueF col + m) 1)
                          alpha))"

definition color_from_hsl :: "real \<Rightarrow> real \<Rightarrow> real \<Rightarrow> real \<Rightarrow> QColor option" where
  "color_from_hsl hue sat lig alpha =
     (let chroma = (1 - qAbs (2 * lig - 1)) * sat;
          h1 = hue * 6;
          x = chroma * (1 - qAbs (fmod h1 2 - 1))
      in case sextant h1 chroma x of
           None \<Rightarrow> None
         | Some col \<Rightarrow>
             (let m = lig - chroma / 2
              in fromRgbF (qBound 0 (redF col + m) 1)
                          (qBound 0 (greenF col + m) 1)
                          (qBound 0 (blueF col + m) 1)
                          alpha))"

definition channels_in_unit :: "QColor \<Rightarrow> bool" where
  "channels_in_unit c = (unit_range (redF c) \<and> unit_range (greenF c) \<and> unit_range (blueF c))"

section \<open>Geometry values of Qt\<close>

text \<open>
  \<^verbatim>\<open>QSize\<close>, \<^verbatim>\<open>QSizeF\<close>, \<^verbatim>\<open>QPoint\<close>, \<^verbatim>\<open>QPointF\<close> and
  \<^verbatim>\<open>QRectF\<close> with the member functions the widget calls. A default-constructed size
  is \<open>(-1, -1)\<close>, a default-constructed rectangle is null.
\<close>

datatype QSize = QSize (wd: int) (ht: int)

definition QSize_default :: QSize where
  "QSize_default = QSize (- 1) (- 1)"

definition QSize_isValid :: "QSize \<Rightarrow> bool" where
  "QSize_isValid sz = (0 \<le> wd sz \<and> 0 \<le> ht sz)"

definition QSize_isEmpty :: "QSize \<Rightarrow> bool" where
  "QSize_isEmpty sz = (wd sz < 1 \<or> ht sz < 1)"

datatype QSizeF = QSizeF (wdF: real) (htF: real)

datatype QPoint = QPoint (xp: int) (yp: int)

datatype QPointF = QPointF (xpF: real) (ypF: real)

definition toPoint :: "QPointF \<Rightarrow> QPoint" where
  "toPoint p = QPoint (qRound (xpF p)) (qRound (ypF p))"

datatype QRectF = QRectF (rx: real) (ry: real) (rw: real) (rh: real)

definition QRectF_default :: QRectF where
  "QRectF_default = QRectF 0 0 0 0"

definition QRectF_isValid :: "QRectF \<Rightarrow> bool" where
  "QRectF_isValid r = (0 < rw r \<and> 0 < rh r)"

definition QRectF_isEmpty :: "QRectF \<Rightarrow> bool" where
  "QRectF_isEmpty r = (rw r \<le> 0 \<or> rh r \<le> 0)"

definition QRectF_center :: "QRectF \<Rightarrow> QPointF" where
  "QRectF_center r = QPointF (rx r + rw r / 2) (ry r + rh r / 2)"

section \<open>The palette\<close>

text \<open>
  Modelled from the spec: the class \<^verbatim>\<open>ColorPalette\<close> is not among the sources. The
  spec gives it as an ordered sequence of (colour, name) pairs with a column hint
  (\<open>0\<close> for automatic), read by \<^verbatim>\<open>count()\<close>, \<^verbatim>\<open>colorAt(index)\<close>,
  \<^verbatim>\<open>nameAt(index)\<close>, \<^verbatim>\<open>columns()\<close> and changed by \<^verbatim>\<open>eraseColor(index)\<close>, which
  notifies the listeners of a removed colour. The spec leaves an index out of range
  open but says that invalid operations are no-ops: there the model reads the default
  colour and the empty name, and erases nothing.
\<close>

record ColorPalette =
  colors :: "(QColor \<times> string) list"
  columns :: int

definition palette_count :: "ColorPalette \<Rightarrow> int" where
  "palette_count p = int (length (colors p))"

definition index_ok :: "ColorPalette \<Rightarrow> int \<Rightarrow> bool" where
  "index_ok p i = (0 \<le> i \<and> i < palette_count p)"

definition palette_colorAt :: "ColorPalette \<Rightarrow> int \<Rightarrow> QColor" where
  "palette_colorAt p i = (if index_ok p i then fst (colors p ! nat i) else QColor_default)"

definition palette_nameAt :: "ColorPalette \<Rightarrow> int \<Rightarrow> string" where
  "palette_nameAt p i = (if index_ok p i then snd (colors p ! nat i) else [])"

definition palette_eraseColor :: "ColorPalette \<Rightarrow> int \<Rightarrow> ColorPalette" where
  "palette_eraseColor p i =
     (if index_ok p i
      then p\<lparr>colors := take (nat i) (colors p) @ drop (Suc (nat i)) (colors p)\<rparr>
      else p)"

section \<open>The widget state\<close>

text \<open>
  What the widget does to the world outside its own fields is kept in a log, newest
  entry first: the calls on the palette that take an index (with the palette count at
  the time of the call), the signals it emits, and its requests to the host widget.
\<close>

datatype ColorSizePolicy = Hint | Minimum | Fixed

datatype event =
    PaletteColorAt int int
  | PaletteNameAt int int
  | PaletteEraseColor int int
  | SelectedChanged int
  | ColorSelected QColor
  | PaletteChanged
  | RightClicked int
  | Update
  | BaseKeyPress
  | SetMinimumSize QSize
  | SetFixedSize QSize
  | ShowToolTip QColor string QRectF
  | HideToolTip

text \<open>
  The fields of \<^verbatim>\<open>Swatch::Private\<close> that the functions below read or write
  (the pens and \<^verbatim>\<open>drag_pos\<close> are left out), the size of the owning widget, and
  the log.
\<close>

record swatch =
  palette :: ColorPalette
  selected :: int
  color_size :: QSize
  size_policy :: ColorSizePolicy
  margin :: int
  emptyColor :: QColor
  forced_rows :: int
  forced_columns :: int
  readonly :: bool
  drag_index :: int
  drop_index :: int
  drop_color :: QColor
  drop_overwrite :: bool
  owner_width :: int
  owner_height :: int
  events :: "event list"

text \<open>The constructor of \<^verbatim>\<open>Swatch::Private\<close>, for a widget of the given size.\<close>

definition swatch_init :: "int \<Rightarrow> int \<Rightarrow> swatch" where
  "swatch_init w h =
     \<lparr> palette = \<lparr> colors = [], columns = 0 \<rparr>,
       selected = - 1,
       color_size = QSize 16 16,
       size_policy = Hint,
       margin = 0,
       emptyColor = QColor Rgb 0 0 0 0,
       forced_rows = 0,
       forced_columns = 0,
       readonly = False,
       drag_index = - 1,
       drop_index = - 1,
       drop_color = QColor_default,
       drop_overwrite = False,
       owner_width = w,
       owner_height = h,
       events = [] \<rparr>"

definition emit :: "event \<Rightarrow> swatch \<Rightarrow> swatch" where
  "emit e s = s\<lparr>events := e # events s\<rparr>"

definition count :: "swatch \<Rightarrow> int" where
  "count s = palette_count (palette s)"

definition call_colorAt :: "int \<Rightarrow> swatch \<Rightarrow> QColor \<times> swatch" where
  "call_colorAt i s = (palette_colorAt (palette s) i, emit (PaletteColorAt i (count s)) s)"

definition call_nameAt :: "int \<Rightarrow> swatch \<Rightarrow> string \<times> swatch" where
  "call_nameAt i s = (palette_nameAt (palette s) i, emit (PaletteNameAt i (count s)) s)"

section \<open>Grid geometry\<close>

text \<open>
  \<^verbatim>\<open>Swatch::Private::rowcols\<close>. \<^verbatim>\<open>std::ceil(float(count) / n)\<close> converted to
  \<^verbatim>\<open>int\<close> is the ceiling of the quotient.
\<close>

definition rowcols :: "swatch \<Rightarrow> fault + QSize" where
  "rowcols s =
     (let cnt = count s in
      if cnt = 0 then Inr QSize_default
      else if forced_rows s \<noteq> 0 then
        fbind (fdiv (of_int cnt) (of_int (forced_rows s)))
          (\<lambda>q. Inr (QSize \<lceil>q\<rceil> (forced_rows s)))
      else
        fbind
          (if forced_columns s \<noteq> 0 then Inr (forced_columns s)
           else if columns (palette s) = 0 then
             fbind (idiv (owner_width s) (wd (color_size s)))
               (\<lambda>q. Inr (qMin (count s) q))
           else Inr (columns (palette s)))
          (\<lambda>cols. fbind (fdiv (of_int cnt) (of_int cols))
             (\<lambda>q. Inr (QSize cols \<lceil>q\<rceil>))))"

text \<open>\<^verbatim>\<open>actualColorSize(const QSize& rowcols)\<close>.\<close>

definition actualColorSize :: "swatch \<Rightarrow> QSize \<Rightarrow> fault + QSizeF" where
  "actualColorSize s rc =
     fbind (fdiv (of_int (owner_width s)) (of_int (wd rc)))
       (\<lambda>w. fbind (fdiv (of_int (owner_height s)) (of_int (ht rc)))
          (\<lambda>h. Inr (QSizeF w h)))"

text \<open>\<^verbatim>\<open>indexRect(int index, const QSize& rowcols, const QSizeF& color_size)\<close>.\<close>

definition indexRect_in :: "swatch \<Rightarrow> int \<Rightarrow> QSize \<Rightarrow> QSizeF \<Rightarrow> fault + QRectF" where
  "indexRect_in s index rc csz =
     (if index = - 1 then Inr QRectF_default
      else
        fbind (imod index (wd rc))
          (\<lambda>col. fbind (idiv index (wd rc))
             (\<lambda>row. Inr (QRectF
                (of_int col * wdF csz + of_int (margin s))
                (of_int row * htF csz + of_int (margin s))
                (wdF csz - of_int (margin s * 2))
                (htF csz - of_int (margin s * 2))))))"

text \<open>\<^verbatim>\<open>indexRect(int index)\<close>.\<close>

definition indexRect :: "swatch \<Rightarrow> int \<Rightarrow> fault + QRectF" where
  "indexRect s index =
     fbind (rowcols s)
       (\<lambda>rc. if index = - 1 \<or> \<not> QSize_isValid rc then Inr QRectF_default
             else fbind (actualColorSize s rc) (\<lambda>csz. indexRect_in s index rc csz))"

text \<open>
  \<^verbatim>\<open>Swatch::indexAt\<close>. \<^verbatim>\<open>qBound<int>\<close> converts the floating quotient to
  \<^verbatim>\<open>int\<close> before it clamps.
\<close>

definition indexAt :: "swatch \<Rightarrow> QPoint \<Rightarrow> fault + int" where
  "indexAt s pt =
     fbind (rowcols s)
       (\<lambda>rc. if QSize_isEmpty rc then Inr (- 1)
             else
               fbind (actualColorSize s rc)
                 (\<lambda>csz. fbind (fdiv (of_int (xp pt)) (wdF csz))
                    (\<lambda>qx. fbind (fdiv (of_int (yp pt)) (htF csz))
                       (\<lambda>qy.
                          let point = QPoint (qBound 0 (to_int qx) (wd rc - 1))
                                             (qBound 0 (to_int qy) (ht rc - 1));
                              index = yp point * wd rc + xp point
                          in Inr (if count s \<le> index then - 1 else index)))))"

text \<open>\<^verbatim>\<open>Swatch::sizeHint\<close>.\<close>

definition sizeHint :: "swatch \<Rightarrow> fault + QSize" where
  "sizeHint s =
     fbind (rowcols s)
       (\<lambda>rc. Inr (if \<not> QSize_isValid (color_size s) \<or> \<not> QSize_isValid rc then QSize_default
                  else QSize ((wd (color_size s) + margin s * 2) * wd rc)
                             ((ht (color_size s) + margin s * 2) * ht rc)))"

section \<open>Selection\<close>

text \<open>\<^verbatim>\<open>Swatch::setSelected\<close> and \<^verbatim>\<open>Swatch::clearSelection\<close>.\<close>

definition setSelected :: "int \<Rightarrow> swatch \<Rightarrow> swatch" where
  "setSelected sel s =
     (let sel' = (if sel < 0 \<or> count s \<le> sel then - 1 else sel) in
      if sel' \<noteq> selected s then
        (let s1 = emit (SelectedChanged sel') (s\<lparr>selected := sel'\<rparr>);
             s2 = (if sel' \<noteq> - 1
                   then (case call_colorAt (selected s1) s1 of
                           (c, s') \<Rightarrow> emit (ColorSelected c) s')
                   else s1)
         in emit Update s2)
      else s)"

definition clearSelection :: "swatch \<Rightarrow> swatch" where
  "clearSelection s = setSelected (- 1) s"

text \<open>\<^verbatim>\<open>Swatch::selectedColor\<close> and \<^verbatim>\<open>Swatch::colorAt\<close>.\<close>

definition selectedColor :: "swatch \<Rightarrow> QColor \<times> swatch" where
  "selectedColor s = call_colorAt (selected s) s"

definition colorAt :: "swatch \<Rightarrow> QPoint \<Rightarrow> fault + QColor \<times> swatch" where
  "colorAt s pt = fbind (indexAt s pt) (\<lambda>i. Inr (call_colorAt i s))"

text \<open>
  The listeners that the constructor of \<^verbatim>\<open>Swatch\<close> connects to the palette's
  notifications of a changed and of a removed colour.
\<close>

definition on_colorChanged :: "int \<Rightarrow> swatch \<Rightarrow> swatch" where
  "on_colorChanged index s =
     (if index = selected s
      then (case call_colorAt index s of (c, s') \<Rightarrow> emit (ColorSelected c) s')
      else s)"

definition on_colorRemoved :: "int \<Rightarrow> swatch \<Rightarrow> swatch" where
  "on_colorRemoved index s = (if index = selected s then clearSelection s else s)"

text \<open>
  A call of \<^verbatim>\<open>palette.eraseColor(i)\<close> by the widget: the call is logged, the palette
  erases the entry and, when it erased one, the listener of a removed colour runs.
\<close>

definition call_eraseColor :: "int \<Rightarrow> swatch \<Rightarrow> swatch" where
  "call_eraseColor i s =
     (let s1 = emit (PaletteEraseColor i (count s)) s in
      if index_ok (palette s1) i
      then on_colorRemoved i (s1\<lparr>palette := palette_eraseColor (palette s1) i\<rparr>)
      else s1)"

text \<open>
  A call of \<^verbatim>\<open>eraseColor(i)\<close> from outside the widget, on the palette that
  \<^verbatim>\<open>Swatch::palette()\<close> hands out by reference: the palette erases the entry and
  the listener of a removed colour runs. The call is not the widget's and is not
  logged.
\<close>

definition outside_eraseColor :: "int \<Rightarrow> swatch \<Rightarrow> swatch" where
  "outside_eraseColor i s =
     (if index_ok (palette s) i
      then on_colorRemoved i (s\<lparr>palette := palette_eraseColor (palette s) i\<rparr>)
      else s)"

text \<open>
  \<^verbatim>\<open>Swatch::setPalette\<close>. What the assignment to the palette object notifies is
  not in the sources; the selection is none by then.
\<close>

definition setPalette :: "ColorPalette \<Rightarrow> swatch \<Rightarrow> swatch" where
  "setPalette pal s = emit PaletteChanged (emit Update ((clearSelection s)\<lparr>palette := pal\<rparr>))"

text \<open>
  \<^verbatim>\<open>Swatch::paletteModified\<close>, the listener of the palette's bulk change. The host
  widget's answer to a new minimum or fixed size is not part of the model.
\<close>

definition paletteModified :: "swatch \<Rightarrow> fault + swatch" where
  "paletteModified s =
     (let s1 = (if count s \<le> selected s then clearSelection s else s) in
      fbind
        (if size_policy s1 = Minimum
         then fbind (sizeHint s1) (\<lambda>sz. Inr (emit (SetMinimumSize sz) s1))
         else if size_policy s1 = Fixed
         then fbind (sizeHint s1) (\<lambda>sz. Inr (emit (SetFixedSize sz) s1))
         else Inr s1)
        (\<lambda>s2. Inr (emit Update s2)))"

text \<open>\<^verbatim>\<open>Swatch::removeSelected\<close>.\<close>

definition removeSelected :: "swatch \<Rightarrow> swatch" where
  "removeSelected s =
     (if selected s \<noteq> - 1 \<and> \<not> readonly s
      then (let sel = selected s;
                s1 = call_eraseColor (selected s) s
            in setSelected (qMin sel (count s1 - 1)) s1)
      else s)"

section \<open>Keyboard and mouse\<close>

datatype Key =
    Key_Left | Key_Right | Key_Up | Key_Down | Key_Home | Key_End
  | Key_Delete | Key_Backspace | Key_PageUp | Key_PageDown | Key_Other

record QKeyEvent =
  key :: Key
  control :: bool

text \<open>
  \<^verbatim>\<open>Swatch::keyPressEvent\<close>. With an empty palette the base class handler is called
  and the function goes on. The layout is computed before the key is looked at.
\<close>

definition keyPressEvent :: "QKeyEvent \<Rightarrow> swatch \<Rightarrow> fault + swatch" where
  "keyPressEvent ev s0 =
     (let s = (if count s0 = 0 then emit BaseKeyPress s0 else s0);
          sel = selected s;
          cnt = count s
      in fbind (rowcols s)
        (\<lambda>rc.
          let cols = wd rc; rows = ht rc in
          case key ev of
            Key_Other \<Rightarrow> Inr (emit BaseKeyPress s)
          | Key_Left \<Rightarrow>
              Inr (setSelected
                (if sel = - 1 then cnt - 1 else if 0 < sel then sel - 1 else sel) s)
          | Key_Right \<Rightarrow>
              Inr (setSelected
                (if sel = - 1 then 0 else if sel < cnt - 1 then sel + 1 else sel) s)
          | Key_Up \<Rightarrow>
              Inr (setSelected
                (if sel = - 1 then cnt - 1 else if cols \<le> sel then sel - cols else sel) s)
          | Key_Down \<Rightarrow>
              Inr (setSelected
                (if sel = - 1 then 0 else if sel < cnt - cols then sel + cols else sel) s)
          | Key_Home \<Rightarrow>
              (if control ev then Inr (setSelected 0 s)
               else fbind (imod sel cols) (\<lambda>m. Inr (setSelected (sel - m) s)))
          | Key_End \<Rightarrow>
              (if control ev then Inr (setSelected (cnt - 1) s)
               else fbind (imod sel cols) (\<lambda>m. Inr (setSelected (sel + (cols - m - 1)) s)))
          | Key_Delete \<Rightarrow> Inr (removeSelected s)
          | Key_Backspace \<Rightarrow>
              (if sel \<noteq> - 1 \<and> \<not> readonly s
               then (let s1 = call_eraseColor sel s;
                         sel' = (if count s1 = 0 then - 1 else qMax (sel - 1) 0)
                     in Inr (setSelected sel' s1))
               else Inr (setSelected sel s))
          | Key_PageUp \<Rightarrow>
              (if sel = - 1 then Inr (setSelected 0 s)
               else fbind (imod sel cols) (\<lambda>m. Inr (setSelected m s)))
          | Key_PageDown \<Rightarrow>
              (if sel = - 1 then Inr (setSelected (cnt - 1) s)
               else fbind (imod sel cols)
                 (\<lambda>m. let t = cols * (rows - 1) + m
                       in Inr (setSelected (if cnt \<le> t then t - cols else t) s)))))"

datatype MouseButton = LeftButton | RightButton | OtherButton

text \<open>\<^verbatim>\<open>Swatch::mousePressEvent\<close> and \<^verbatim>\<open>Swatch::mouseReleaseEvent\<close>.\<close>

definition mousePressEvent :: "MouseButton \<Rightarrow> QPoint \<Rightarrow> swatch \<Rightarrow> fault + swatch" where
  "mousePressEvent button pos s =
     (case button of
        LeftButton \<Rightarrow> fbind (indexAt s pos) (\<lambda>i. Inr (setSelected i s))
      | RightButton \<Rightarrow>
          fbind (indexAt s pos) (\<lambda>i. Inr (if i \<noteq> - 1 then emit (RightClicked i) s else s))
      | OtherButton \<Rightarrow> Inr s)"

definition mouseReleaseEvent :: "MouseButton \<Rightarrow> swatch \<Rightarrow> swatch" where
  "mouseReleaseEvent button s = (if button = LeftButton then s\<lparr>drag_index := - 1\<rparr> else s)"

text \<open>
  The tool tip branch of \<^verbatim>\<open>Swatch::event\<close>. The text of the tool tip is built by
  Qt's string functions from the colour and the name; the log keeps the two and the
  rectangle.
\<close>

definition toolTipEvent :: "QPoint \<Rightarrow> swatch \<Rightarrow> fault + swatch" where
  "toolTipEvent pos s =
     fbind (indexAt s pos)
       (\<lambda>index.
          if index \<noteq> - 1
          then (case call_colorAt index s of
                  (color, s1) \<Rightarrow>
                    (case call_nameAt index s1 of
                       (name, s2) \<Rightarrow>
                         fbind (indexRect s2 index)
                           (\<lambda>r. Inr (emit (ShowToolTip color name r) s2))))
          else Inr (emit HideToolTip s))"

section \<open>Drop resolution\<close>

datatype DropAction = CopyAction | MoveAction | LinkAction | IgnoreAction

text \<open>
  What \<^verbatim>\<open>Swatch::Private::dropEvent\<close> reads of a \<^verbatim>\<open>QDropEvent\<close>: the position
  (\<^verbatim>\<open>pos()\<close> is \<^verbatim>\<open>posF()\<close> rounded), the colour and the text of the mime data
  (\<open>textColor\<close> is \<^verbatim>\<open>QColor(text)\<close>), the drop action, and whether the source is
  this widget.
\<close>

record QDropEvent =
  posF :: QPointF
  hasColor :: bool
  colorData :: QColor
  hasText :: bool
  textColor :: QColor
  dropAction :: DropAction
  source_is_owner :: bool

definition pos :: "QDropEvent \<Rightarrow> QPoint" where
  "pos ev = toPoint (posF ev)"

text \<open>
  The second operand of the test for overwriting, evaluated left to right:
  \<^verbatim>\<open>dropAction() != Qt::MoveAction || source() != owner || palette.colorAt(drop_index) == emptyColor\<close>.
\<close>

definition may_overwrite :: "QDropEvent \<Rightarrow> swatch \<Rightarrow> bool \<times> swatch" where
  "may_overwrite ev s =
     (if dropAction ev \<noteq> MoveAction then (True, s)
      else if \<not> source_is_owner ev then (True, s)
      else (case call_colorAt (drop_index s) s of (c, s') \<Rightarrow> (c = emptyColor s', s')))"

definition overwrite_if :: "bool \<Rightarrow> QDropEvent \<Rightarrow> swatch \<Rightarrow> swatch" where
  "overwrite_if past_quarter ev s =
     (if past_quarter
      then (case may_overwrite ev s of (b, s') \<Rightarrow> if b then s'\<lparr>drop_overwrite := True\<rparr> else s')
      else s)"

text \<open>
  \<^verbatim>\<open>Swatch::Private::dropEvent\<close>. In the single-column branch the source tests
  \<^verbatim>\<open>posF().y()\<close> for the insertion after the cell and \<^verbatim>\<open>posF().x()\<close>, against
  \<^verbatim>\<open>top() + height() / 4\<close>, for overwriting; the model keeps both as they are.
\<close>

definition dropEvent :: "QDropEvent \<Rightarrow> swatch \<Rightarrow> fault + swatch" where
  "dropEvent ev s =
     fbind (indexAt s (pos ev))
       (\<lambda>i.
          let s1 = s\<lparr>drop_index := (if i = - 1 then count s else i)\<rparr>;
              s2 = (if hasColor ev then s1\<lparr>drop_color := colorData ev\<rparr>
                    else if hasText ev then s1\<lparr>drop_color := textColor ev\<rparr>
                    else s1);
              s3 = s2\<lparr>drop_overwrite := False\<rparr>
          in fbind (indexRect s3 (drop_index s3))
            (\<lambda>drop_rect.
               Inr (emit Update
                 (if drop_index s3 < count s3 \<and> QRectF_isValid drop_rect
                  then
                    (if columns (palette s3) = 1 \<or> forced_columns s3 = 1
                     then
                       (if ry drop_rect + rh drop_rect * 3 / 4 \<le> ypF (posF ev)
                        then s3\<lparr>drop_index := drop_index s3 + 1\<rparr>
                        else overwrite_if
                               (ry drop_rect + rh drop_rect / 4 < xpF (posF ev)) ev s3)
                     else
                       (if rx drop_rect + rw drop_rect * 3 / 4 \<le> xpF (posF ev)
                        then s3\<lparr>drop_index := drop_index s3 + 1\<rparr>
                        else overwrite_if
                               (rx drop_rect + rw drop_rect / 4 < xpF (posF ev)) ev s3))
                  else s3))))"

text \<open>\<^verbatim>\<open>Swatch::Private::clearDrop\<close>.\<close>

definition clearDrop :: "swatch \<Rightarrow> swatch" where
  "clearDrop s =
     emit Update (s\<lparr>drop_index := - 1, drop_color := QColor_default, drop_overwrite := False\<rparr>)"

section \<open>Setters\<close>

text \<open>
  \<^verbatim>\<open>setForcedColumns\<close>, \<^verbatim>\<open>setForcedRows\<close>, \<^verbatim>\<open>setReadOnly\<close>,
  \<^verbatim>\<open>setMargin\<close>, \<^verbatim>\<open>setEmptyColor\<close> and \<^verbatim>\<open>setColorSize\<close>. Their change
  signals carry no index and are not logged.
\<close>

definition setForcedColumns :: "int \<Rightarrow> swatch \<Rightarrow> swatch" where
  "setForcedColumns n s =
     (let n' = (if n \<le> 0 then 0 else n) in
      if n' \<noteq> forced_columns s then s\<lparr>forced_columns := n', forced_rows := 0\<rparr> else s)"

definition setForcedRows :: "int \<Rightarrow> swatch \<Rightarrow> swatch" where
  "setForcedRows n s =
     (let n' = (if n \<le> 0 then 0 else n) in
      if n' \<noteq> forced_rows s then s\<lparr>forced_columns := 0, forced_rows := n'\<rparr> else s)"

definition setReadOnly :: "bool \<Rightarrow> swatch \<Rightarrow> swatch" where
  "setReadOnly b s = (if b \<noteq> readonly s then s\<lparr>readonly := b\<rparr> else s)"

definition setMargin :: "int \<Rightarrow> swatch \<Rightarrow> swatch" where
  "setMargin m s = (if m \<noteq> margin s then emit Update (s\<lparr>margin := m\<rparr>) else s)"

definition setEmptyColor :: "QColor \<Rightarrow> swatch \<Rightarrow> swatch" where
  "setEmptyColor c s = (if c \<noteq> emptyColor s then emit Update (s\<lparr>emptyColor := c\<rparr>) else s)"

definition setColorSize :: "QSize \<Rightarrow> swatch \<Rightarrow> swatch" where
  "setColorSize sz s = (if color_size s \<noteq> sz then s\<lparr>color_size := sz\<rparr> else s)"

text \<open>The host widget is resized.\<close>

definition resize :: "int \<Rightarrow> int \<Rightarrow> swatch \<Rightarrow> swatch" where
  "resize w h s = s\<lparr>owner_width := w, owner_height := h\<rparr>"

section \<open>Operations of the widget\<close>

text \<open>
  The operations that the sources give the widget, as one transition function.
  \<open>ColorsChanged cs\<close> is a bulk change of the palette from outside: the palette holds
  the colours \<open>cs\<close> and notifies \<^verbatim>\<open>colorsChanged\<close>, whose listener is
  \<^verbatim>\<open>paletteModified\<close>. The removal of a single entry from outside is not one of
  them; it is \<open>outside_eraseColor\<close>.
\<close>

datatype op =
    SetSelected int
  | ClearSelection
  | SetPalette ColorPalette
  | ColorsChanged "(QColor \<times> string) list"
  | KeyPress QKeyEvent
  | RemoveSelected
  | MousePress MouseButton QPoint
  | MouseRelease MouseButton
  | ToolTip QPoint
  | DragOver QDropEvent
  | ClearDrop
  | SetForcedColumns int
  | SetForcedRows int
  | SetReadOnly bool
  | SetMargin int
  | SetEmptyColor QColor
  | SetColorSize QSize
  | Resize int int

fun step :: "op \<Rightarrow> swatch \<Rightarrow> fault + swatch" where
  "step (SetSelected i) s = Inr (setSelected i s)"
| "step ClearSelection s = Inr (clearSelection s)"
| "step (SetPalette pal) s = Inr (setPalette pal s)"
| "step (ColorsChanged cs) s = paletteModified (s\<lparr>palette := (palette s)\<lparr>colors := cs\<rparr>\<rparr>)"
| "step (KeyPress ev) s = keyPressEvent ev s"
| "step RemoveSelected s = Inr (removeSelected s)"
| "step (MousePress b pt) s = mousePressEvent b pt s"
| "step (MouseRelease b) s = Inr (mouseReleaseEvent b s)"
| "step (ToolTip pt) s = toolTipEvent pt s"
| "step (DragOver ev) s = dropEvent ev s"
| "step ClearDrop s = Inr (clearDrop s)"
| "step (SetForcedColumns n) s = Inr (setForcedColumns n s)"
| "step (SetForcedRows n) s = Inr (setForcedRows n s)"
| "step (SetReadOnly b) s = Inr (setReadOnly b s)"
| "step (SetMargin m) s = Inr (setMargin m s)"
| "step (SetEmptyColor c) s = Inr (setEmptyColor c s)"
| "step (SetColorSize sz) s = Inr (setColorSize sz s)"
| "step (Resize w h) s = Inr (resize w h s)"

text \<open>A run of operations stops at the first fault.\<close>

fun run :: "op list \<Rightarrow> swatch \<Rightarrow> fault + swatch" where
  "run [] s = Inr s"
| "run (x # xs) s = fbind (step x s) (run xs)"

text \<open>The selection that an operation leaves.\<close>

definition selected_after :: "fault + swatch \<Rightarrow> fault + int" where
  "selected_after r = fbind r (\<lambda>s. Inr (selected s))"

text \<open>The log that an operation leaves, and the log after \<open>colorAt\<close>.\<close>

definition events_after :: "fault + swatch \<Rightarrow> fault + event list" where
  "events_after r = fbind r (\<lambda>s. Inr (events s))"

definition colorAt_log :: "swatch \<Rightarrow> QPoint \<Rightarrow> fault + event list" where
  "colorAt_log s pt = fbind (colorAt s pt) (\<lambda>r. Inr (events (snd r)))"

text \<open>The selection is none or an index of the palette.\<close>

definition swatch_inv :: "swatch \<Rightarrow> bool" where
  "swatch_inv s = (selected s = - 1 \<or> (0 \<le> selected s \<and> selected s < count s))"

text \<open>Every logged call on the palette took an index in range at the time of the call.\<close>

fun call_ok :: "event \<Rightarrow> bool" where
  "call_ok (PaletteColorAt i n) = (0 \<le> i \<and> i < n)"
| "call_ok (PaletteNameAt i n) = (0 \<le> i \<and> i < n)"
| "call_ok (PaletteEraseColor i n) = (0 \<le> i \<and> i < n)"
| "call_ok _ = True"

definition calls_in_range :: "swatch \<Rightarrow> bool" where
  "calls_in_range s = list_all call_ok (events s)"

text \<open>
  The state of \<open>dropEvent\<close> after its first half, where \<open>i\<close> is the result of the
  hit test: the target index, the colour and the cleared flag are set.
\<close>

definition drop_prepared :: "QDropEvent \<Rightarrow> int \<Rightarrow> swatch \<Rightarrow> swatch" where
  "drop_prepared ev i s =
     (let s1 = s\<lparr>drop_index := (if i = - 1 then count s else i)\<rparr>;
          s2 = (if hasColor ev then s1\<lparr>drop_color := colorData ev\<rparr>
                else if hasText ev then s1\<lparr>drop_color := textColor ev\<rparr>
                else s1)
      in s2\<lparr>drop_overwrite := False\<rparr>)"

text \<open>The target index and the overwrite flag that a drag over the widget leaves.\<close>

definition drop_result :: "QDropEvent \<Rightarrow> swatch \<Rightarrow> fault + int \<times> bool" where
  "drop_result ev s = fbind (dropEvent ev s) (\<lambda>s'. Inr (drop_index s', drop_overwrite s'))"

section \<open>Sample states\<close>

text \<open>
  A freshly constructed widget of a given size whose palette holds \<open>n\<close> entries of
  opaque red and a given column hint.
\<close>

definition sample_palette :: "nat \<Rightarrow> int \<Rightarrow> ColorPalette" where
  "sample_palette n cols =
     \<lparr> colors = replicate n (QColor Rgb 65535 65535 0 0, ''red''), columns = cols \<rparr>"

definition sample_swatch :: "nat \<Rightarrow> int \<Rightarrow> int \<Rightarrow> int \<Rightarrow> swatch" where
  "sample_swatch n cols w h = (swatch_init w h)\<lparr>palette := sample_palette n cols\<rparr>"

text \<open>
  A drag of an opaque blue colour at the pointer position \<open>(x, y)\<close>: a copy from
  another source, and a move that started in this widget.
\<close>

definition copy_drop :: "real \<Rightarrow> real \<Rightarrow> QDropEvent" where
  "copy_drop x y =
     \<lparr> posF = QPointF x y, hasColor = True, colorData = QColor Rgb 65535 0 0 65535,
       hasText = False, textColor = QColor_default, dropAction = CopyAction,
       source_is_owner = False \<rparr>"

definition move_drop :: "real \<Rightarrow> real \<Rightarrow> QDropEvent" where
  "move_drop x y =
     \<lparr> posF = QPointF x y, hasColor = True, colorData = QColor Rgb 65535 0 0 65535,
       hasText = False, textColor = QColor_default, dropAction = MoveAction,
       source_is_owner = True \<rparr>"

section \<open>Properties of the colour conversions\<close>

lemma qBound_unit: "unit_range (qBound 0 v 1)"
  by (simp add: qBound_def qMax_def qMin_def unit_range_def)

lemma to16_le: "unit_range v \<Longrightarrow> to16 v \<le> USHRT_MAX"
proof -
  assume "unit_range v"
  then have v: "0 \<le> v" "v \<le> 1" by (simp_all add: unit_range_def)
  then have "v * 65535 + 1 / 2 \<le> 65535 + 1 / 2" by simp
  then have "\<lfloor>v * 65535 + 1 / 2\<rfloor> \<le> (65535 :: int)" by linarith
  then have "nat \<lfloor>v * 65535 + 1 / 2\<rfloor> \<le> 65535" by linarith
  with v show ?thesis
    by (simp add: to16_def qRound_def to_int_def USHRT_MAX_def)
qed

lemma fromRgbF_channels:
  assumes "fromRgbF r g b a = Some c"
  shows "channels_in_unit c"
proof -
  from assms have u: "unit_range r" "unit_range g" "unit_range b"
    and c: "c = QColor Rgb (to16 a) (to16 r) (to16 g) (to16 b)"
    by (auto simp: fromRgbF_def split: if_splits)
  have "real (to16 r) \<le> real USHRT_MAX" "real (to16 g) \<le> real USHRT_MAX"
    "real (to16 b) \<le> real USHRT_MAX"
    using u to16_le by (simp_all only: of_nat_le_iff)
  then show ?thesis
    by (simp add: channels_in_unit_def unit_range_def redF_def greenF_def blueF_def c
        USHRT_MAX_def)
qed

lemma fmod2_range:
  assumes "0 \<le> h"
  shows "0 \<le> fmod h 2 \<and> fmod h 2 < 2"
proof -
  have "of_int \<lfloor>h / 2\<rfloor> \<le> h / 2" "h / 2 < of_int \<lfloor>h / 2\<rfloor> + 1"
    by linarith+
  then have "0 \<le> h - of_int \<lfloor>h / 2\<rfloor> * 2" "h - of_int \<lfloor>h / 2\<rfloor> * 2 < 2"
    by linarith+
  then show ?thesis
    using assms by (simp add: fmod_def to_int_def)
qed

lemma x_range:
  assumes "0 \<le> h" "unit_range c"
  shows "unit_range (c * (1 - qAbs (fmod h 2 - 1)))"
proof -
  from fmod2_range [OF assms(1)] have "0 \<le> 1 - qAbs (fmod h 2 - 1)" "1 - qAbs (fmod h 2 - 1) \<le> 1"
    by (simp_all add: qAbs_def)
  with assms(2) show ?thesis
    by (simp add: unit_range_def mult_le_one)
qed

lemma sextant_defined:
  assumes "unit_range c" "unit_range x"
  shows "\<exists>col. sextant h1 c x = Some col"
  using assms by (simp add: sextant_def fromRgbF_def unit_range_def)

lemma hsl_chroma_range:
  assumes "unit_range sat" "unit_range lig"
  shows "unit_range ((1 - qAbs (2 * lig - 1)) * sat)"
proof -
  from assms(2) have "0 \<le> 1 - qAbs (2 * lig - 1)" "1 - qAbs (2 * lig - 1) \<le> 1"
    by (simp_all add: qAbs_def unit_range_def)
  with assms(1) show ?thesis
    by (simp add: unit_range_def mult_le_one)
qed

text \<open>
  Claim C7. For every hue in \<open>[0, 1)\<close> and saturation, lightness, chroma, luma and
  alpha in \<open>[0, 1]\<close>, \<open>color_from_hsl\<close> and \<open>color_from_lch\<close> return a colour,
  and its red, green and blue channels lie in \<open>[0, 1]\<close>, whatever \<open>color_lumaF\<close>
  computes: the offset is added to the channels of the sextant colour and each sum is
  clamped by \<open>qBound\<close> before the result is built.
\<close>

theorem color_channels_in_unit_range:
  assumes "0 \<le> hue" "hue < 1" "unit_range sat" "unit_range lig"
    "unit_range chroma" "unit_range luma" "unit_range alpha"
  shows "(\<exists>c. color_from_hsl hue sat lig alpha = Some c \<and> channels_in_unit c) \<and>
         (\<exists>c. color_from_lch color_lumaF hue chroma luma alpha = Some c \<and> channels_in_unit c)"
proof
  let ?h1 = "hue * 6"
  have h1: "0 \<le> ?h1" using assms(1) by simp
  let ?ch = "(1 - qAbs (2 * lig - 1)) * sat"
  have ch: "unit_range ?ch" by (rule hsl_chroma_range [OF assms(3,4)])
  obtain col where col: "sextant ?h1 ?ch (?ch * (1 - qAbs (fmod ?h1 2 - 1))) = Some col"
    using sextant_defined [OF ch x_range [OF h1 ch]] by blast
  obtain c where c: "color_from_hsl hue sat lig alpha = Some c"
    using col assms(7) by (simp add: color_from_hsl_def Let_def fromRgbF_def qBound_unit)
  then have "channels_in_unit c"
    using col by (simp add: color_from_hsl_def Let_def fromRgbF_channels)
  with c show "\<exists>c. color_from_hsl hue sat lig alpha = Some c \<and> channels_in_unit c"
    by blast
next
  let ?h1 = "hue * 6"
  have h1: "0 \<le> ?h1" using assms(1) by simp
  obtain col where col: "sextant ?h1 chroma (chroma * (1 - qAbs (fmod ?h1 2 - 1))) = Some col"
    using sextant_defined [OF assms(5) x_range [OF h1 assms(5)]] by blast
  obtain c where c: "color_from_lch color_lumaF hue chroma luma alpha = Some c"
    using col assms(7) by (simp add: color_from_lch_def Let_def fromRgbF_def qBound_unit)
  then have "channels_in_unit c"
    using col by (simp add: color_from_lch_def Let_def fromRgbF_channels)
  with c show "\<exists>c. color_from_lch color_lumaF hue chroma luma alpha = Some c \<and> channels_in_unit c"
    by blast
qed

theorem color_channels_in_unit_range_witness:
  "(0::real) \<le> 1 / 2 \<and> (1 / 2 :: real) < 1 \<and> unit_range 1 \<and> unit_range (1 / 2) \<and>
   (\<exists>c. color_from_hsl (1 / 2) 1 (1 / 2) 1 = Some c \<and> channels_in_unit c) \<and>
   (\<exists>c. color_from_lch (\<lambda>c. 0) (1 / 2) 1 (1 / 2) 1 = Some c \<and> channels_in_unit c)"
  using color_channels_in_unit_range [of "1 / 2" 1 "1 / 2" 1 "1 / 2" 1 "\<lambda>c. 0"]
  by (simp add: unit_range_def)

section \<open>Properties of the grid geometry\<close>

lemma count_sample [simp]: "count (sample_swatch n cols w h) = int n"
  by (simp add: count_def sample_swatch_def sample_palette_def palette_count_def)

lemma sample_fields [simp]:
  "forced_rows (sample_swatch n cols w h) = 0"
  "forced_columns (sample_swatch n cols w h) = 0"
  "columns (palette (sample_swatch n cols w h)) = cols"
  "owner_width (sample_swatch n cols w h) = w"
  "owner_height (sample_swatch n cols w h) = h"
  "color_size (sample_swatch n cols w h) = QSize 16 16"
  "margin (sample_swatch n cols w h) = 0"
  "selected (sample_swatch n cols w h) = - 1"
  "readonly (sample_swatch n cols w h) = False"
  "emptyColor (sample_swatch n cols w h) = QColor Rgb 0 0 0 0"
  "events (sample_swatch n cols w h) = []"
  by (simp_all add: sample_swatch_def sample_palette_def swatch_init_def)

lemma count_update [simp]:
  "count (s\<lparr>forced_rows := a\<rparr>) = count s"
  "count (s\<lparr>forced_columns := a\<rparr>) = count s"
  "count (s\<lparr>margin := b\<rparr>) = count s"
  "count (s\<lparr>selected := b\<rparr>) = count s"
  "count (s\<lparr>readonly := c\<rparr>) = count s"
  "count (s\<lparr>events := d\<rparr>) = count s"
  by (simp_all add: count_def)

lemma sdiv_nonneg: "0 \<le> a \<Longrightarrow> 0 < b \<Longrightarrow> (a::int) sdiv b = a div b"
  by (simp add: signed_divide_int_def sgn_if)

lemma smod_nonneg: "0 \<le> a \<Longrightarrow> 0 < b \<Longrightarrow> (a::int) smod b = a mod b"
  by (simp add: signed_modulo_int_def sgn_if)

lemma ceiling_covers:
  assumes "0 < (c::int)"
  shows "n \<le> c * \<lceil>real_of_int n / real_of_int c\<rceil>"
proof -
  have c: "0 < real_of_int c" using assms by simp
  have "real_of_int n / real_of_int c \<le> of_int \<lceil>real_of_int n / real_of_int c\<rceil>"
    by (rule le_of_int_ceiling)
  then have "real_of_int n \<le> of_int \<lceil>real_of_int n / real_of_int c\<rceil> * real_of_int c"
    by (rule pos_divide_le_eq [OF c, THEN iffD1])
  then have "real_of_int n \<le> real_of_int (c * \<lceil>real_of_int n / real_of_int c\<rceil>)"
    by (simp only: of_int_mult mult.commute)
  then show ?thesis by (simp only: of_int_le_iff)
qed

lemma rowcols_covers:
  assumes "rowcols s = Inr rc" "\<not> QSize_isEmpty rc"
  shows "count s \<le> wd rc * ht rc"
proof (cases "forced_rows s \<noteq> 0")
  case True
  with assms have rc: "rc = QSize \<lceil>real_of_int (count s) / real_of_int (forced_rows s)\<rceil> (forced_rows s)"
    by (auto simp: rowcols_def Let_def fbind_def fdiv_def QSize_isEmpty_def QSize_default_def
        split: if_splits)
  with assms(2) have "0 < forced_rows s" by (simp add: QSize_isEmpty_def)
  from ceiling_covers [OF this, of "count s"] show ?thesis
    by (simp add: rc mult.commute)
next
  case False
  with assms obtain q where rc: "rc = QSize (wd rc) \<lceil>real_of_int (count s) / real_of_int (wd rc)\<rceil>"
    by (auto simp: rowcols_def Let_def fbind_def fdiv_def idiv_def QSize_isEmpty_def QSize_default_def
        split: if_splits sum.splits)
  from assms(2) have "0 < wd rc" by (simp add: QSize_isEmpty_def)
  from ceiling_covers [OF this, of "count s"] show ?thesis
    by (subst (2) rc) simp
qed

lemma center_hit:
  assumes "1 < cw" "0 \<le> (k::int)"
  shows "to_int (of_int (qRound (of_int k * cw + of_int m + (cw - of_int (m * 2)) / 2)) / cw) = k"
proof -
  define c where "c = of_int k * cw + cw / 2"
  have kc: "0 \<le> of_int k * cw" using assms by simp
  then have c0: "0 \<le> c" using assms(1) by (simp add: c_def)
  define p where "p = \<lfloor>c + 1 / 2\<rfloor>"
  have p1: "of_int p \<le> c + 1 / 2" and p2: "c + 1 / 2 < of_int p + 1"
    unfolding p_def by linarith+
  have eq: "of_int k * cw + of_int m + (cw - of_int (m * 2)) / 2 = c"
    by (simp add: c_def field_simps)
  have q: "qRound c = p"
    using c0 by (simp add: qRound_def to_int_def p_def)
  have lo: "of_int k * cw \<le> of_int p"
    using p2 assms(1) unfolding c_def by linarith
  have "(of_int k + 1) * cw = of_int k * cw + cw" by (simp add: algebra_simps)
  then have hi: "of_int p < (of_int k + 1) * cw"
    using p1 assms(1) unfolding c_def by linarith
  have cw: "0 < cw" using assms(1) by simp
  have a: "of_int k \<le> of_int p / cw"
    using lo by (simp add: pos_le_divide_eq [OF cw])
  have b: "of_int p / cw < of_int k + 1"
    using hi by (simp add: pos_divide_less_eq [OF cw])
  have "0 \<le> of_int p / cw" using a assms(2) by linarith
  moreover have "\<lfloor>of_int p / cw\<rfloor> = k" using a b by linarith
  ultimately show ?thesis
    unfolding eq q by (simp add: to_int_def)
qed

lemma qBound_id: "lo \<le> v \<Longrightarrow> v \<le> hi \<Longrightarrow> qBound lo v hi = v"
  by (auto simp: qBound_def qMin_def qMax_def)

text \<open>With an empty palette every geometry query answers with the empty value.\<close>

lemma degenerate_ok:
  "count s = 0 \<Longrightarrow> rowcols s = Inr QSize_default \<and> indexAt s pt = Inr (- 1) \<and> indexRect s i = Inr QRectF_default"
  by (simp add: rowcols_def indexAt_def indexRect_def Let_def fbind_def QSize_isEmpty_def QSize_isValid_def QSize_default_def)

text \<open>
  Claim C1. For a palette count above zero and \<open>forced_rows\<close> above zero the layout
  has \<open>\<lceil>count / forced_rows\<rceil>\<close> columns and \<open>forced_rows\<close> rows, whatever
  \<open>forced_columns\<close> is. Ten entries with three forced columns give \<open>(3, 4)\<close>, ten
  entries with two forced rows give \<open>(5, 2)\<close>, and an empty palette gives the default
  size \<open>(-1, -1)\<close>, which is empty and not valid, whatever the other fields are.
\<close>

theorem rowcols_layout:
  "(0 < count s \<and> 0 < forced_rows s \<longrightarrow>
      rowcols s = Inr (QSize \<lceil>real_of_int (count s) / real_of_int (forced_rows s)\<rceil> (forced_rows s))) \<and>
   (count s = 10 \<and> forced_rows s = 0 \<and> forced_columns s = 3 \<longrightarrow> rowcols s = Inr (QSize 3 4)) \<and>
   (count s = 10 \<and> forced_rows s = 2 \<longrightarrow> rowcols s = Inr (QSize 5 2)) \<and>
   (count s = 0 \<longrightarrow> rowcols s = Inr QSize_default \<and> QSize_isEmpty QSize_default \<and>
      \<not> QSize_isValid QSize_default)"
  by (simp add: rowcols_def Let_def fbind_def fdiv_def QSize_isEmpty_def QSize_isValid_def
      QSize_default_def)

theorem rowcols_layout_witness:
  "count ((sample_swatch 10 0 100 100)\<lparr>forced_rows := 2, forced_columns := 3\<rparr>) = 10 \<and>
   rowcols ((sample_swatch 10 0 100 100)\<lparr>forced_rows := 2, forced_columns := 3\<rparr>) = Inr (QSize 5 2) \<and>
   rowcols ((sample_swatch 10 0 100 100)\<lparr>forced_columns := 3\<rparr>) = Inr (QSize 3 4) \<and>
   rowcols ((sample_swatch 0 0 100 100)\<lparr>forced_columns := 3\<rparr>) = Inr QSize_default"
  using rowcols_layout [of "(sample_swatch 10 0 100 100)\<lparr>forced_rows := 2, forced_columns := 3\<rparr>"]
    rowcols_layout [of "(sample_swatch 10 0 100 100)\<lparr>forced_columns := 3\<rparr>"]
    rowcols_layout [of "(sample_swatch 0 0 100 100)\<lparr>forced_columns := 3\<rparr>"]
  by simp

text \<open>
  Claim C2, as stated, fails: \<open>indexAt\<close> takes a point in whole pixels, so the centre
  of a cell has to be rounded (\<open>toPoint\<close>), and in a cell that is one pixel wide or
  narrower the rounded centre lies in another cell. In a widget one pixel wide with
  three columns the centre of cell 1 rounds to the pixel \<open>(1, 1)\<close>, which hits cell 2;
  in a widget two pixels wide with two columns the centre of cell 0 rounds to
  \<open>(1, 1)\<close>, which hits cell 1.
\<close>

theorem subpixel_center_counterexample:
  "count (sample_swatch 3 3 1 1) = 3 \<and>
   rowcols (sample_swatch 3 3 1 1) = Inr (QSize 3 1) \<and>
   actualColorSize (sample_swatch 3 3 1 1) (QSize 3 1) = Inr (QSizeF (1 / 3) 1) \<and>
   indexRect (sample_swatch 3 3 1 1) 1 = Inr (QRectF (1 / 3) 0 (1 / 3) 1) \<and>
   toPoint (QRectF_center (QRectF (1 / 3) 0 (1 / 3) 1)) = QPoint 1 1 \<and>
   indexAt (sample_swatch 3 3 1 1) (QPoint 1 1) = Inr 2 \<and>
   rowcols (sample_swatch 2 2 2 1) = Inr (QSize 2 1) \<and>
   actualColorSize (sample_swatch 2 2 2 1) (QSize 2 1) = Inr (QSizeF 1 1) \<and>
   indexRect (sample_swatch 2 2 2 1) 0 = Inr (QRectF 0 0 1 1) \<and>
   toPoint (QRectF_center (QRectF 0 0 1 1)) = QPoint 1 1 \<and>
   indexAt (sample_swatch 2 2 2 1) (QPoint 1 1) = Inr 1"
  by (simp add: rowcols_def indexAt_def indexRect_def indexRect_in_def actualColorSize_def Let_def
      fbind_def fdiv_def idiv_def imod_def qMin_def qMax_def qBound_def QSize_isEmpty_def
      QSize_isValid_def toPoint_def QRectF_center_def qRound_def to_int_def
      signed_divide_int_def signed_modulo_int_def)

text \<open>
  Claim C2, amended. In a layout that is not empty, in a widget wider than its number
  of columns and taller than its number of rows (every cell measures more than one
  pixel each way), for every index \<open>i\<close> of the palette the rectangle of \<open>i\<close> is
  computed and the hit test at its centre, rounded to a pixel, returns \<open>i\<close>, for
  every margin.
\<close>

theorem indexAt_center_roundtrip:
  assumes "rowcols s = Inr rc" "\<not> QSize_isEmpty rc"
    "wd rc < owner_width s" "ht rc < owner_height s"
    "0 \<le> i" "i < count s"
  shows "\<exists>r. indexRect s i = Inr r \<and> indexAt s (toPoint (QRectF_center r)) = Inr i"
proof -
  define c where "c = wd rc"
  define n where "n = ht rc"
  define cw where "cw = real_of_int (owner_width s) / real_of_int c"
  define ch where "ch = real_of_int (owner_height s) / real_of_int n"
  have c: "0 < c" and n: "0 < n" using assms(2) by (simp_all add: c_def n_def QSize_isEmpty_def)
  have cw: "1 < cw" using assms(3) c by (simp add: cw_def c_def)
  have ch: "1 < ch" using assms(4) n by (simp add: ch_def n_def)
  have acs: "actualColorSize s rc = Inr (QSizeF cw ch)"
    using c n by (simp add: actualColorSize_def fbind_def fdiv_def cw_def ch_def c_def n_def)
  define r where "r = QRectF (of_int (i mod c) * cw + of_int (margin s))
     (of_int (i div c) * ch + of_int (margin s))
     (cw - of_int (margin s * 2)) (ch - of_int (margin s * 2))"
  have "indexRect_in s i rc (QSizeF cw ch) = Inr r"
    using assms(5) c
    by (simp add: indexRect_in_def imod_def idiv_def fbind_def smod_nonneg sdiv_nonneg r_def
        c_def [symmetric])
  then have rect: "indexRect s i = Inr r"
    using assms(1,5) c n acs
    by (simp add: indexRect_def fbind_def QSize_isValid_def c_def n_def)
  have col: "0 \<le> i mod c" "i mod c \<le> c - 1" using c by simp_all
  have "count s \<le> c * n" using rowcols_covers [OF assms(1,2)] by (simp add: c_def n_def)
  then have "i < c * n" using assms(6) by simp
  moreover have "c * (i div c) + i mod c = i" by simp
  ultimately have "c * (i div c) < c * n" using col(1) by linarith
  then have "i div c < n" using c by (simp only: mult_less_cancel_left_pos)
  then have row: "0 \<le> i div c" "i div c \<le> n - 1" using assms(5) c by (simp_all add: pos_imp_zdiv_nonneg_iff)
  have hx: "to_int (of_int (qRound (of_int (i mod c) * cw + of_int (margin s) + (cw - of_int (margin s * 2)) / 2)) / cw) = i mod c"
    by (rule center_hit [OF cw col(1)])
  have hy: "to_int (of_int (qRound (of_int (i div c) * ch + of_int (margin s) + (ch - of_int (margin s * 2)) / 2)) / ch) = i div c"
    by (rule center_hit [OF ch row(1)])
  have cw0: "cw \<noteq> 0" "ch \<noteq> 0" using cw ch by simp_all
  have "indexAt s (toPoint (QRectF_center r)) = Inr i"
    using assms(1,2,6) acs cw0 hx hy
    by (simp add: indexAt_def fbind_def fdiv_def toPoint_def QRectF_center_def r_def Let_def
        c_def [symmetric] n_def [symmetric] qBound_id [OF col] qBound_id [OF row])
  with rect show ?thesis by blast
qed

theorem indexAt_center_roundtrip_witness:
  "rowcols ((sample_swatch 10 0 100 100)\<lparr>forced_columns := 3, margin := 2\<rparr>) = Inr (QSize 3 4) \<and>
   \<not> QSize_isEmpty (QSize 3 4) \<and>
   (\<exists>r. indexRect ((sample_swatch 10 0 100 100)\<lparr>forced_columns := 3, margin := 2\<rparr>) 4 = Inr r \<and>
        indexAt ((sample_swatch 10 0 100 100)\<lparr>forced_columns := 3, margin := 2\<rparr>)
          (toPoint (QRectF_center r)) = Inr 4)"
proof -
  let ?s = "(sample_swatch 10 0 100 100)\<lparr>forced_columns := 3, margin := 2\<rparr>"
  have rc: "rowcols ?s = Inr (QSize 3 4)"
    by (simp add: rowcols_def Let_def fbind_def fdiv_def)
  have ne: "\<not> QSize_isEmpty (QSize 3 4)"
    by (simp add: QSize_isEmpty_def)
  from indexAt_center_roundtrip [OF rc ne, of 4] rc ne show ?thesis
    by simp
qed

text \<open>
  Claim C9 fails on the code. With one entry, no forced rows or columns, no column
  hint and a widget of width zero, \<open>rowcols\<close> takes \<open>min(1, 0 / 16) = 0\<close> columns
  and divides the count by it. With one column and a widget of width or of height
  zero the layout is \<open>(1, 1)\<close>, a cell measures zero pixels, and \<open>indexAt\<close>
  divides the coordinate by it.
\<close>

theorem degenerate_geometry_divides_by_zero:
  "rowcols (sample_swatch 1 0 0 0) = Inl DivisionByZero \<and>
   indexAt (sample_swatch 1 1 0 10) (QPoint 0 0) = Inl DivisionByZero \<and>
   indexAt (sample_swatch 1 1 10 0) (QPoint 0 0) = Inl DivisionByZero"
  by (simp add: rowcols_def indexAt_def actualColorSize_def Let_def fbind_def fdiv_def idiv_def
      qMin_def QSize_isEmpty_def)


section \<open>Properties of the selection and of the calls on the palette\<close>

lemma emit_fields [simp]:
  "selected (emit e s) = selected s"
  "palette (emit e s) = palette s"
  "readonly (emit e s) = readonly s"
  "events (emit e s) = e # events s"
  "count (emit e s) = count s"
  by (simp_all add: emit_def count_def)

lemma calls_emit [simp]: "calls_in_range (emit e s) = (call_ok e \<and> calls_in_range s)"
  by (simp add: calls_in_range_def)

lemma setSelected_selected:
  "selected (setSelected i s) = (if 0 \<le> i \<and> i < count s then i else - 1)"
  by (auto simp: setSelected_def Let_def call_colorAt_def count_def split: prod.splits)

lemma setSelected_palette [simp]:
  "palette (setSelected i s) = palette s"
  "count (setSelected i s) = count s"
  "readonly (setSelected i s) = readonly s"
  by (auto simp: setSelected_def Let_def call_colorAt_def count_def split: prod.splits)

lemma setSelected_inv: "swatch_inv (setSelected i s)"
  by (simp add: swatch_inv_def setSelected_selected)

lemma calls_in_range_update [simp]:
  "calls_in_range (s\<lparr>selected := a\<rparr>) = calls_in_range s"
  "calls_in_range (s\<lparr>palette := b\<rparr>) = calls_in_range s"
  "calls_in_range (s\<lparr>drop_index := c\<rparr>) = calls_in_range s"
  "calls_in_range (s\<lparr>drop_color := d\<rparr>) = calls_in_range s"
  "calls_in_range (s\<lparr>drop_overwrite := e\<rparr>) = calls_in_range s"
  "calls_in_range (s\<lparr>drag_index := f\<rparr>) = calls_in_range s"
  by (simp_all add: calls_in_range_def)

lemma setSelected_calls: "calls_in_range s \<Longrightarrow> calls_in_range (setSelected i s)"
  by (auto simp: setSelected_def Let_def call_colorAt_def count_def split: prod.splits)

lemma clearSelection_selected [simp]: "selected (clearSelection s) = - 1"
  by (simp add: clearSelection_def setSelected_selected)

lemma clearSelection_frame [simp]:
  "palette (clearSelection s) = palette s"
  "count (clearSelection s) = count s"
  "readonly (clearSelection s) = readonly s"
  by (simp_all add: clearSelection_def)

lemma clearSelection_calls: "calls_in_range s \<Longrightarrow> calls_in_range (clearSelection s)"
  by (simp add: clearSelection_def setSelected_calls)

lemma erase_selected:
  "selected (call_eraseColor (selected s) s) = (if index_ok (palette s) (selected s) then - 1 else selected s)"
  by (simp add: call_eraseColor_def Let_def on_colorRemoved_def)

lemma erase_palette [simp]:
  "palette (call_eraseColor i s) = palette_eraseColor (palette s) i"
  by (simp add: call_eraseColor_def Let_def on_colorRemoved_def palette_eraseColor_def)

lemma erase_readonly [simp]: "readonly (call_eraseColor i s) = readonly s"
  by (simp add: call_eraseColor_def Let_def on_colorRemoved_def)

lemma erase_calls:
  "calls_in_range s \<Longrightarrow> index_ok (palette s) i \<Longrightarrow> calls_in_range (call_eraseColor i s)"
  by (simp add: call_eraseColor_def Let_def on_colorRemoved_def clearSelection_calls index_ok_def count_def)

lemma inv_index_ok: "swatch_inv s \<Longrightarrow> selected s \<noteq> - 1 \<Longrightarrow> index_ok (palette s) (selected s)"
  by (auto simp: swatch_inv_def index_ok_def count_def)

lemma removeSelected_inv: "swatch_inv s \<Longrightarrow> swatch_inv (removeSelected s)"
  by (simp add: removeSelected_def Let_def setSelected_inv)

lemma removeSelected_calls:
  "swatch_inv s \<Longrightarrow> calls_in_range s \<Longrightarrow> calls_in_range (removeSelected s)"
  by (simp add: removeSelected_def Let_def setSelected_calls erase_calls inv_index_ok)

lemma inv_emit [simp]: "swatch_inv (emit e s) = swatch_inv s"
  by (simp add: swatch_inv_def)

lemma keyPressEvent_inv:
  assumes "swatch_inv s" "keyPressEvent ev s = Inr s'"
  shows "swatch_inv s'"
  using assms
  by (cases "key ev")
    (auto simp: keyPressEvent_def Let_def fbind_def imod_def setSelected_inv removeSelected_inv
      split: sum.splits if_splits)

lemma keyPressEvent_calls:
  assumes "swatch_inv s" "calls_in_range s" "keyPressEvent ev s = Inr s'"
  shows "calls_in_range s'"
  using assms
  by (cases "key ev")
    (auto simp: keyPressEvent_def Let_def fbind_def imod_def setSelected_calls removeSelected_calls
      erase_calls inv_index_ok split: sum.splits if_splits)


lemma qBound_range: "lo \<le> hi \<Longrightarrow> lo \<le> qBound lo v hi \<and> qBound lo v hi \<le> hi"
  by (auto simp: qBound_def qMin_def qMax_def)

lemma indexAt_range:
  assumes "indexAt s pt = Inr i"
  shows "i = - 1 \<or> (0 \<le> i \<and> i < count s)"
proof -
  from assms obtain rc where rc: "rowcols s = Inr rc"
    by (auto simp: indexAt_def fbind_def split: sum.splits)
  show ?thesis
  proof (cases "QSize_isEmpty rc")
    case True
    with assms rc show ?thesis by (simp add: indexAt_def fbind_def)
  next
    case False
    then have c: "0 \<le> wd rc - 1" "0 \<le> ht rc - 1" by (simp_all add: QSize_isEmpty_def)
    from assms rc False have
      "i = - 1 \<or> (\<exists>qx qy. i = qBound 0 qy (ht rc - 1) * wd rc + qBound 0 qx (wd rc - 1) \<and>
         i < count s)"
      by (auto simp: indexAt_def fbind_def Let_def split: sum.splits if_splits)
    moreover have "0 \<le> qBound 0 qy (ht rc - 1) * wd rc + qBound 0 qx (wd rc - 1)" for qx qy
    proof -
      have "0 \<le> qBound 0 qy (ht rc - 1)" "0 \<le> qBound 0 qx (wd rc - 1)"
        using qBound_range [OF c(1)] qBound_range [OF c(2)] by simp_all
      moreover have "0 \<le> wd rc" using c by simp
      ultimately show ?thesis by simp
    qed
    ultimately show ?thesis by auto
  qed
qed

lemma paletteModified_inv:
  assumes "selected s = - 1 \<or> 0 \<le> selected s" "paletteModified s = Inr s'"
  shows "swatch_inv s'"
  using assms
  by (auto simp: paletteModified_def Let_def fbind_def swatch_inv_def split: sum.splits if_splits)

lemma paletteModified_calls:
  assumes "calls_in_range s" "paletteModified s = Inr s'"
  shows "calls_in_range s'"
  using assms
  by (auto simp: paletteModified_def Let_def fbind_def clearSelection_calls
      split: sum.splits if_splits)

lemma paletteModified_clears:
  assumes "count s \<le> selected s" "paletteModified s = Inr s'"
  shows "selected s' = - 1"
  using assms
  by (auto simp: paletteModified_def Let_def fbind_def split: sum.splits if_splits)

lemma mousePressEvent_inv:
  assumes "swatch_inv s" "mousePressEvent b pt s = Inr s'"
  shows "swatch_inv s'"
  using assms
  by (cases b) (auto simp: mousePressEvent_def fbind_def setSelected_inv split: sum.splits if_splits)

lemma mousePressEvent_calls:
  assumes "calls_in_range s" "mousePressEvent b pt s = Inr s'"
  shows "calls_in_range s'"
  using assms
  by (cases b) (auto simp: mousePressEvent_def fbind_def setSelected_calls split: sum.splits if_splits)

lemma toolTipEvent_frame:
  assumes "toolTipEvent pt s = Inr s'"
  shows "selected s' = selected s \<and> palette s' = palette s"
  using assms
  by (auto simp: toolTipEvent_def fbind_def call_colorAt_def call_nameAt_def
      split: sum.splits if_splits)

lemma toolTipEvent_calls:
  assumes "calls_in_range s" "toolTipEvent pt s = Inr s'"
  shows "calls_in_range s'"
proof -
  from assms(2) obtain i where i: "indexAt s pt = Inr i"
    by (auto simp: toolTipEvent_def fbind_def split: sum.splits)
  from indexAt_range [OF i] assms i show ?thesis
    by (auto simp: toolTipEvent_def fbind_def call_colorAt_def call_nameAt_def
        split: sum.splits if_splits)
qed

lemma may_overwrite_frame:
  "selected (snd (may_overwrite ev s)) = selected s \<and> palette (snd (may_overwrite ev s)) = palette s
   \<and> drop_index (snd (may_overwrite ev s)) = drop_index s"
  by (simp add: may_overwrite_def call_colorAt_def emit_def)

lemma may_overwrite_calls:
  "calls_in_range s \<Longrightarrow> index_ok (palette s) (drop_index s) \<Longrightarrow>
   calls_in_range (snd (may_overwrite ev s))"
  by (simp add: may_overwrite_def call_colorAt_def index_ok_def count_def)

lemma overwrite_if_frame:
  "selected (overwrite_if b ev s) = selected s \<and> palette (overwrite_if b ev s) = palette s
   \<and> drop_index (overwrite_if b ev s) = drop_index s"
  using may_overwrite_frame [of ev s]
  by (auto simp: overwrite_if_def split: prod.splits)

lemma overwrite_if_calls:
  "calls_in_range s \<Longrightarrow> index_ok (palette s) (drop_index s) \<Longrightarrow>
   calls_in_range (overwrite_if b ev s)"
  using may_overwrite_calls [of s ev]
  by (auto simp: overwrite_if_def split: prod.splits)

lemma dropEvent_frame:
  assumes "dropEvent ev s = Inr s'"
  shows "selected s' = selected s \<and> palette s' = palette s"
  using assms
  by (auto simp: dropEvent_def fbind_def Let_def overwrite_if_frame split: sum.splits if_splits)

lemma dropEvent_calls:
  assumes "calls_in_range s" "dropEvent ev s = Inr s'"
  shows "calls_in_range s'"
proof -
  from assms(2) obtain i where i: "indexAt s (pos ev) = Inr i"
    by (auto simp: dropEvent_def fbind_def split: sum.splits)
  have ok: "index_ok (palette t) (drop_index t)"
    if "drop_index t < count t" "drop_index t = (if i = - 1 then count s else i)"
      "palette t = palette s" for t
    using that indexAt_range [OF i] by (auto simp: index_ok_def count_def split: if_splits)
  from assms i show ?thesis
    by (auto simp: dropEvent_def fbind_def Let_def count_def intro!: overwrite_if_calls ok
        split: sum.splits if_splits)
qed


lemma step_inv:
  assumes "swatch_inv s" "step x s = Inr s'"
  shows "swatch_inv s'"
proof (cases x)
  case (ColorsChanged cs)
  from assms(1) have "selected s = - 1 \<or> 0 \<le> selected s"
    by (auto simp: swatch_inv_def)
  then show ?thesis
    using assms(2) ColorsChanged by (auto intro: paletteModified_inv [rotated])
next
  case (KeyPress ev)
  with assms show ?thesis by (auto intro: keyPressEvent_inv)
next
  case (MousePress b pt)
  with assms show ?thesis by (auto intro: mousePressEvent_inv)
next
  case (ToolTip pt)
  with assms toolTipEvent_frame [of pt s s'] show ?thesis
    by (simp add: swatch_inv_def count_def)
next
  case (DragOver ev)
  with assms dropEvent_frame [of ev s s'] show ?thesis
    by (simp add: swatch_inv_def count_def)
next
  case (SetPalette pal)
  with assms show ?thesis by (auto simp: setPalette_def swatch_inv_def)
next
  case (SetSelected i)
  with assms show ?thesis by (auto simp: setSelected_inv)
next
  case ClearSelection
  with assms show ?thesis by (auto simp: setSelected_inv clearSelection_def)
next
  case RemoveSelected
  with assms show ?thesis by (auto simp: removeSelected_inv)
qed (use assms in \<open>auto simp: mouseReleaseEvent_def clearDrop_def setForcedColumns_def
      setForcedRows_def setReadOnly_def setMargin_def setEmptyColor_def setColorSize_def
      resize_def swatch_inv_def count_def Let_def split: if_splits\<close>)

lemma step_calls:
  assumes "swatch_inv s" "calls_in_range s" "step x s = Inr s'"
  shows "calls_in_range s'"
proof (cases x)
  case (ColorsChanged cs)
  with assms show ?thesis by (auto intro: paletteModified_calls [rotated])
next
  case (KeyPress ev)
  with assms show ?thesis by (auto intro: keyPressEvent_calls)
next
  case (MousePress b pt)
  with assms show ?thesis by (auto intro: mousePressEvent_calls)
next
  case (ToolTip pt)
  with assms show ?thesis by (auto intro: toolTipEvent_calls)
next
  case (DragOver ev)
  with assms show ?thesis by (auto intro: dropEvent_calls)
next
  case (SetPalette pal)
  with assms show ?thesis by (auto simp: setPalette_def clearSelection_calls)
next
  case (SetSelected i)
  with assms show ?thesis by (auto simp: setSelected_calls)
next
  case ClearSelection
  with assms show ?thesis by (auto simp: clearSelection_calls)
next
  case RemoveSelected
  with assms show ?thesis by (auto simp: removeSelected_calls)
qed (use assms in \<open>auto simp: mouseReleaseEvent_def clearDrop_def setForcedColumns_def
      setForcedRows_def setReadOnly_def setMargin_def setEmptyColor_def setColorSize_def
      resize_def calls_in_range_def emit_def Let_def split: if_splits\<close>)

lemma run_inv_calls:
  "swatch_inv s \<Longrightarrow> calls_in_range s \<Longrightarrow> run xs s = Inr s' \<Longrightarrow>
   swatch_inv s' \<and> calls_in_range s'"
proof (induction xs arbitrary: s)
  case Nil
  then show ?case by simp
next
  case (Cons x xs)
  from Cons.prems(3) obtain t where t: "step x s = Inr t" "run xs t = Inr s'"
    by (auto simp: fbind_def split: sum.splits)
  from step_inv [OF Cons.prems(1) t(1)] step_calls [OF Cons.prems(1,2) t(1)] t(2)
  show ?case by (rule Cons.IH)
qed

lemma rowcols_emit [simp]: "rowcols (emit e s) = rowcols s"
  by (simp add: rowcols_def emit_def count_def Let_def)

lemma keyPressEvent_total:
  assumes "rowcols s = Inr rc" "wd rc \<noteq> 0"
  shows "\<exists>s'. keyPressEvent ev s = Inr s'"
  using assms
  by (cases "key ev") (simp_all add: keyPressEvent_def Let_def fbind_def imod_def)

lemma setSelected_size_policy [simp]:
  "size_policy (setSelected i s) = size_policy s"
  "size_policy (clearSelection s) = size_policy s"
  by (auto simp: clearSelection_def setSelected_def Let_def call_colorAt_def emit_def
      split: prod.splits)

lemma selected_after_Inr:
  "selected_after r = Inr k \<longleftrightarrow> (\<exists>s'. r = Inr s' \<and> selected s' = k)"
  by (cases r) (auto simp: selected_after_def fbind_def)

lemma run_inv: "swatch_inv s \<Longrightarrow> run xs s = Inr s' \<Longrightarrow> swatch_inv s'"
proof (induction xs arbitrary: s)
  case Nil
  then show ?case by simp
next
  case (Cons x xs)
  from Cons.prems(2) obtain t where t: "step x s = Inr t" "run xs t = Inr s'"
    by (auto simp: fbind_def split: sum.splits)
  from step_inv [OF Cons.prems(1) t(1)] t(2) show ?case by (rule Cons.IH)
qed

lemma setSelected_same: "swatch_inv s \<Longrightarrow> setSelected (selected s) s = s"
  by (auto simp: setSelected_def swatch_inv_def Let_def)

lemma count_erase:
  "index_ok (palette s) i \<Longrightarrow> count (call_eraseColor i s) = count s - 1"
  by (auto simp: count_def palette_eraseColor_def palette_count_def index_ok_def)

lemma erase_events:
  "index_ok (palette s) (selected s) \<Longrightarrow>
   events (call_eraseColor (selected s) s) =
     Update # SelectedChanged (- 1) # PaletteEraseColor (selected s) (count s) # events s"
  by (auto simp: call_eraseColor_def Let_def on_colorRemoved_def clearSelection_def
      setSelected_def emit_def index_ok_def count_def)

lemma setSelected_events:
  "0 \<le> k \<Longrightarrow> k < count s \<Longrightarrow> selected s = - 1 \<Longrightarrow>
   events (setSelected k s) =
     Update # ColorSelected (palette_colorAt (palette s) k) # PaletteColorAt k (count s) #
     SelectedChanged k # events s"
  by (auto simp: setSelected_def Let_def call_colorAt_def emit_def count_def)

text \<open>
  The listener of a removed colour acts only on the selected index: the removal of
  another entry leaves the selection as it is.
\<close>

lemma on_colorRemoved_other: "i \<noteq> selected s \<Longrightarrow> on_colorRemoved i s = s"
  by (simp add: on_colorRemoved_def)

text \<open>
  What the widget's own operations keep. The selection of a new widget is none.
  \<open>setSelected\<close> leaves the selection none or in range from any state, and none
  when its argument is outside \<open>[0, count)\<close>. \<open>paletteModified\<close>, the listener of
  a bulk change, clears a selection at or beyond the count. The listener of a removed
  colour, and with it \<open>eraseColor\<close> of the selected entry, clears the selection.
  Every operation of \<open>step\<close>, and so every run of them, keeps the selection none or
  in range.
\<close>

lemma selection_invariant:
  "swatch_inv (swatch_init w h) \<and>
   (\<forall>i. swatch_inv (setSelected i s) \<and>
        (i < 0 \<or> count s \<le> i \<longrightarrow> selected (setSelected i s) = - 1)) \<and>
   (\<forall>s'. count s \<le> selected s \<and> paletteModified s = Inr s' \<longrightarrow> selected s' = - 1) \<and>
   (\<forall>cs s'. int (length cs) \<le> selected s \<and> step (ColorsChanged cs) s = Inr s' \<longrightarrow>
        selected s' = - 1) \<and>
   selected (on_colorRemoved (selected s) s) = - 1 \<and>
   (index_ok (palette s) (selected s) \<longrightarrow> selected (call_eraseColor (selected s) s) = - 1) \<and>
   (\<forall>x s'. swatch_inv s \<and> step x s = Inr s' \<longrightarrow> swatch_inv s') \<and>
   (\<forall>xs s'. swatch_inv s \<and> run xs s = Inr s' \<longrightarrow> swatch_inv s')"
proof (intro conjI allI impI)
  show "swatch_inv (swatch_init w h)"
    by (simp add: swatch_inv_def swatch_init_def)
  show "swatch_inv (setSelected i s)" for i
    by (rule setSelected_inv)
  show "selected (setSelected i s) = - 1" if "i < 0 \<or> count s \<le> i" for i
    using that by (auto simp: setSelected_selected)
  show "selected s' = - 1" if "count s \<le> selected s \<and> paletteModified s = Inr s'" for s'
    using that paletteModified_clears by blast
  show "selected s' = - 1"
    if "int (length cs) \<le> selected s \<and> step (ColorsChanged cs) s = Inr s'" for cs s'
    using that
    paletteModified_clears [of "s\<lparr>palette := (palette s)\<lparr>colors := cs\<rparr>\<rparr>" s']
    by (simp add: count_def palette_count_def)
  show "selected (on_colorRemoved (selected s) s) = - 1"
    by (simp add: on_colorRemoved_def)
  show "selected (call_eraseColor (selected s) s) = - 1" if "index_ok (palette s) (selected s)"
    using that by (simp add: erase_selected)
  show "swatch_inv s'" if "swatch_inv s \<and> step x s = Inr s'" for x s'
    using that step_inv by blast
  show "swatch_inv s'" if "swatch_inv s \<and> run xs s = Inr s'" for xs s'
    using that run_inv by blast
qed

lemma selection_invariant_example:
  "swatch_inv ((sample_swatch 8 0 100 100)\<lparr>selected := 7\<rparr>) \<and>
   selected_after (step (ColorsChanged (replicate 5 (QColor Rgb 65535 65535 0 0, ''red'')))
      ((sample_swatch 8 0 100 100)\<lparr>selected := 7\<rparr>)) = Inr (- 1) \<and>
   selected (setSelected 9 ((sample_swatch 8 0 100 100)\<lparr>selected := 7\<rparr>)) = - 1 \<and>
   selected_after (step (KeyPress \<lparr>key = Key_Backspace, control = False\<rparr>)
      ((sample_swatch 8 0 100 100)\<lparr>selected := 7\<rparr>)) = Inr 6 \<and>
   (\<exists>s'. step (KeyPress \<lparr>key = Key_Backspace, control = False\<rparr>)
      ((sample_swatch 8 0 100 100)\<lparr>selected := 7\<rparr>) = Inr s' \<and> swatch_inv s')"
proof -
  let ?s = "(sample_swatch 8 0 100 100)\<lparr>selected := 7\<rparr>"
  have inv: "swatch_inv ?s"
    by (simp add: swatch_inv_def)
  have rc: "rowcols ?s = Inr (QSize 6 2)"
    by (simp add: rowcols_def Let_def fbind_def fdiv_def idiv_def qMin_def signed_divide_int_def)
  have bs: "selected_after (step (KeyPress \<lparr>key = Key_Backspace, control = False\<rparr>) ?s) = Inr 6"
    using rc
    by (simp add: selected_after_def keyPressEvent_def Let_def fbind_def setSelected_selected
        index_ok_def palette_count_def palette_eraseColor_def sample_swatch_def sample_palette_def
        swatch_init_def qMax_def count_def)
  then obtain s' where s': "step (KeyPress \<lparr>key = Key_Backspace, control = False\<rparr>) ?s = Inr s'"
    by (auto simp: selected_after_Inr)
  have pm: "selected_after (step (ColorsChanged (replicate 5 (QColor Rgb 65535 65535 0 0, ''red''))) ?s) = Inr (- 1)"
    by (simp add: selected_after_def paletteModified_def Let_def fbind_def count_def
        palette_count_def sample_swatch_def swatch_init_def)
  from selection_invariant [of 100 100 ?s]
  have "\<forall>x s'. swatch_inv ?s \<and> step x ?s = Inr s' \<longrightarrow> swatch_inv s'"
    by blast
  with inv s' have "swatch_inv s'"
    by blast
  with inv s' bs pm show ?thesis
    by (simp add: setSelected_selected)
qed


text \<open>
  Claim C5 fails on the code. The listener of a removed colour compares the removed
  index with the selection and does nothing when they differ. With two entries and the
  second one selected, the removal of the first one from outside leaves one entry and
  the selection at index 1, which is the count: the palette has shrunk to the selected
  index and the selection is neither none nor in range.
\<close>

theorem outside_removal_leaves_selection_out_of_range:
  "swatch_inv ((sample_swatch 2 0 100 100)\<lparr>selected := 1\<rparr>) \<and>
   count ((sample_swatch 2 0 100 100)\<lparr>selected := 1\<rparr>) = 2 \<and>
   count (outside_eraseColor 0 ((sample_swatch 2 0 100 100)\<lparr>selected := 1\<rparr>)) = 1 \<and>
   selected (outside_eraseColor 0 ((sample_swatch 2 0 100 100)\<lparr>selected := 1\<rparr>)) = 1 \<and>
   \<not> swatch_inv (outside_eraseColor 0 ((sample_swatch 2 0 100 100)\<lparr>selected := 1\<rparr>))"
  by (simp add: swatch_inv_def outside_eraseColor_def on_colorRemoved_def index_ok_def
      palette_eraseColor_def palette_count_def count_def sample_swatch_def sample_palette_def
      swatch_init_def)

text \<open>
  Claim C8, as stated, fails: \<open>selectedColor\<close> passes the selection to the palette
  as it is, which is \<open>-1\<close> for a new widget, and \<open>colorAt\<close> passes the result of
  the hit test, which is \<open>-1\<close> for a point in the unused part of the last row.
\<close>

theorem selectedColor_passes_none_counterexample:
  "swatch_inv (swatch_init 100 100) \<and> calls_in_range (swatch_init 100 100) \<and>
   events (snd (selectedColor (swatch_init 100 100))) = [PaletteColorAt (- 1) 0] \<and>
   \<not> calls_in_range (snd (selectedColor (swatch_init 100 100))) \<and>
   indexAt (sample_swatch 5 3 90 60) (QPoint 80 50) = Inr (- 1) \<and>
   colorAt_log (sample_swatch 5 3 90 60) (QPoint 80 50) = Inr [PaletteColorAt (- 1) 5]"
  by (simp add: swatch_inv_def swatch_init_def calls_in_range_def selectedColor_def
      call_colorAt_def emit_def count_def palette_count_def colorAt_log_def colorAt_def
      indexAt_def rowcols_def actualColorSize_def fbind_def fdiv_def Let_def QSize_isEmpty_def
      qBound_def qMin_def qMax_def to_int_def sample_swatch_def sample_palette_def)

text \<open>
  Claim C8, amended. In every run of the widget's operations (setting and clearing the
  selection, keys, mouse, tool tip, drop resolution, the setters, a bulk change of the
  palette) from a state whose selection is none or in range, every index passed to
  \<open>colorAt\<close>, \<open>nameAt\<close> and \<open>eraseColor\<close> of the palette is in \<open>[0, count)\<close>
  at the time of the call. The two queries pass their index unchecked:
  \<open>selectedColor\<close> passes the selection, which is in range when there is one, and
  \<open>colorAt\<close> passes the result of the hit test, which is in range when the point
  hits an entry. The listener of a changed colour passes the index that the palette
  notified, when it is the selected one.
\<close>

theorem palette_calls_in_range:
  "calls_in_range (swatch_init w h) \<and>
   (\<forall>xs s'. swatch_inv s \<and> calls_in_range s \<and> run xs s = Inr s' \<longrightarrow> calls_in_range s') \<and>
   events (snd (selectedColor s)) = PaletteColorAt (selected s) (count s) # events s \<and>
   (swatch_inv s \<and> calls_in_range s \<and> selected s \<noteq> - 1 \<longrightarrow>
      calls_in_range (snd (selectedColor s))) \<and>
   (\<forall>pt i. indexAt s pt = Inr i \<longrightarrow>
      colorAt_log s pt = Inr (PaletteColorAt i (count s) # events s)) \<and>
   (\<forall>pt i r. calls_in_range s \<and> indexAt s pt = Inr i \<and> i \<noteq> - 1 \<and> colorAt s pt = Inr r \<longrightarrow>
      calls_in_range (snd r)) \<and>
   (\<forall>i. swatch_inv s \<and> calls_in_range s \<and> i \<noteq> - 1 \<longrightarrow> calls_in_range (on_colorChanged i s))"
proof (intro conjI allI impI)
  show "calls_in_range (swatch_init w h)"
    by (simp add: calls_in_range_def swatch_init_def)
  show "calls_in_range s'" if "swatch_inv s \<and> calls_in_range s \<and> run xs s = Inr s'" for xs s'
    using that run_inv_calls by blast
  show "events (snd (selectedColor s)) = PaletteColorAt (selected s) (count s) # events s"
    by (simp add: selectedColor_def call_colorAt_def)
  show "calls_in_range (snd (selectedColor s))"
    if "swatch_inv s \<and> calls_in_range s \<and> selected s \<noteq> - 1"
    using that by (auto simp: selectedColor_def call_colorAt_def swatch_inv_def)
  show "colorAt_log s pt = Inr (PaletteColorAt i (count s) # events s)"
    if "indexAt s pt = Inr i" for pt i
    using that by (simp add: colorAt_log_def colorAt_def fbind_def call_colorAt_def)
  show "calls_in_range (snd r)"
    if "calls_in_range s \<and> indexAt s pt = Inr i \<and> i \<noteq> - 1 \<and> colorAt s pt = Inr r" for pt i r
    using that indexAt_range [of s pt i]
    by (auto simp: colorAt_def fbind_def call_colorAt_def)
  show "calls_in_range (on_colorChanged i s)"
    if "swatch_inv s \<and> calls_in_range s \<and> i \<noteq> - 1" for i
    using that by (auto simp: on_colorChanged_def call_colorAt_def swatch_inv_def)
qed

theorem palette_calls_in_range_witness:
  "swatch_inv ((sample_swatch 8 0 100 100)\<lparr>selected := 7\<rparr>) \<and>
   calls_in_range ((sample_swatch 8 0 100 100)\<lparr>selected := 7\<rparr>) \<and>
   events_after (run [KeyPress \<lparr>key = Key_Backspace, control = False\<rparr>, ToolTip (QPoint 5 5)]
      ((sample_swatch 8 0 100 100)\<lparr>selected := 7\<rparr>)) =
     Inr [ShowToolTip (QColor Rgb 65535 65535 0 0) ''red'' (QRectF 0 0 (50 / 3) 50),
          PaletteNameAt 0 7, PaletteColorAt 0 7,
          Update, ColorSelected (QColor Rgb 65535 65535 0 0), PaletteColorAt 6 7,
          SelectedChanged 6, Update, SelectedChanged (- 1), PaletteEraseColor 7 8] \<and>
   (\<exists>s'. run [KeyPress \<lparr>key = Key_Backspace, control = False\<rparr>, ToolTip (QPoint 5 5)]
      ((sample_swatch 8 0 100 100)\<lparr>selected := 7\<rparr>) = Inr s' \<and> calls_in_range s')"
proof -
  let ?s = "(sample_swatch 8 0 100 100)\<lparr>selected := 7\<rparr>"
  let ?xs = "[KeyPress \<lparr>key = Key_Backspace, control = False\<rparr>, ToolTip (QPoint 5 5)]"
  have inv: "swatch_inv ?s"
    by (simp add: swatch_inv_def)
  have cir: "calls_in_range ?s"
    by (simp add: calls_in_range_def)
  have ev: "events_after (run ?xs ?s) =
     Inr [ShowToolTip (QColor Rgb 65535 65535 0 0) ''red'' (QRectF 0 0 (50 / 3) 50),
          PaletteNameAt 0 7, PaletteColorAt 0 7,
          Update, ColorSelected (QColor Rgb 65535 65535 0 0), PaletteColorAt 6 7,
          SelectedChanged 6, Update, SelectedChanged (- 1), PaletteEraseColor 7 8]"
    by (simp add: events_after_def keyPressEvent_def toolTipEvent_def Let_def fbind_def
        setSelected_def clearSelection_def call_eraseColor_def on_colorRemoved_def
        call_colorAt_def call_nameAt_def emit_def
        index_ok_def palette_count_def palette_eraseColor_def palette_colorAt_def palette_nameAt_def
        sample_swatch_def sample_palette_def swatch_init_def qMax_def qMin_def qBound_def count_def
        rowcols_def indexAt_def indexRect_def indexRect_in_def actualColorSize_def
        fdiv_def idiv_def imod_def QSize_isEmpty_def QSize_isValid_def to_int_def
        signed_divide_int_def signed_modulo_int_def)
  then obtain s' where s': "run ?xs ?s = Inr s'"
    by (cases "run ?xs ?s") (simp_all add: events_after_def fbind_def)
  from palette_calls_in_range [of 100 100 ?s]
  have "\<forall>xs s'. swatch_inv ?s \<and> calls_in_range ?s \<and> run xs ?s = Inr s' \<longrightarrow> calls_in_range s'"
    by blast
  with inv cir s' have "calls_in_range s'"
    by blast
  with inv cir ev s' show ?thesis
    by simp
qed


text \<open>
  Claim C6. In a state whose layout is computed (a division by zero in \<open>rowcols\<close>
  is undefined in the program and left out): with no selection and a count above zero,
  five in particular, Right selects index 0 and Left selects the last index; with the
  last index selected Right changes nothing; Backspace on the only entry of a palette
  empties the palette and leaves no selection. Read-only mode disables Backspace, as
  the spec says. Beyond these cases, Right and Left move the selection by one and stop
  at the ends, and Backspace erases the selected entry and selects the one before it,
  or the first one.
\<close>

theorem keyboard_navigation:
  assumes "rowcols s = Inr rc"
  shows
   "(0 < count s \<and> selected s = - 1 \<and> key ev = Key_Right \<longrightarrow>
       selected_after (keyPressEvent ev s) = Inr 0) \<and>
    (0 < count s \<and> selected s = - 1 \<and> key ev = Key_Left \<longrightarrow>
       selected_after (keyPressEvent ev s) = Inr (count s - 1)) \<and>
    (0 < count s \<and> selected s = count s - 1 \<and> key ev = Key_Right \<longrightarrow>
       keyPressEvent ev s = Inr s) \<and>
    (count s = 1 \<and> selected s = 0 \<and> \<not> readonly s \<and> key ev = Key_Backspace \<longrightarrow>
       (\<exists>s'. keyPressEvent ev s = Inr s' \<and> colors (palette s') = [] \<and> selected s' = - 1)) \<and>
    (0 < count s \<and> swatch_inv s \<and> readonly s \<and> key ev = Key_Backspace \<longrightarrow>
       keyPressEvent ev s = Inr s) \<and>
    (0 \<le> selected s \<and> selected s < count s - 1 \<and> key ev = Key_Right \<longrightarrow>
       selected_after (keyPressEvent ev s) = Inr (selected s + 1)) \<and>
    (0 < selected s \<and> selected s < count s \<and> key ev = Key_Left \<longrightarrow>
       selected_after (keyPressEvent ev s) = Inr (selected s - 1)) \<and>
    (0 < count s \<and> selected s = 0 \<and> key ev = Key_Left \<longrightarrow>
       keyPressEvent ev s = Inr s) \<and>
    (swatch_inv s \<and> selected s \<noteq> - 1 \<and> \<not> readonly s \<and> key ev = Key_Backspace \<longrightarrow>
       (\<exists>s'. keyPressEvent ev s = Inr s' \<and>
             palette s' = palette_eraseColor (palette s) (selected s) \<and>
             selected s' = (if count s = 1 then - 1 else qMax (selected s - 1) 0)))"
proof (intro conjI impI)
  show "selected_after (keyPressEvent ev s) = Inr 0"
    if "0 < count s \<and> selected s = - 1 \<and> key ev = Key_Right"
    using that assms
    by (simp add: selected_after_def keyPressEvent_def Let_def fbind_def setSelected_selected)
  show "selected_after (keyPressEvent ev s) = Inr (count s - 1)"
    if "0 < count s \<and> selected s = - 1 \<and> key ev = Key_Left"
    using that assms
    by (simp add: selected_after_def keyPressEvent_def Let_def fbind_def setSelected_selected)
  show "keyPressEvent ev s = Inr s"
    if "0 < count s \<and> selected s = count s - 1 \<and> key ev = Key_Right"
  proof -
    from that have "swatch_inv s" by (simp add: swatch_inv_def)
    from setSelected_same [OF this] that assms show ?thesis
      by (simp add: keyPressEvent_def Let_def fbind_def)
  qed
  show "\<exists>s'. keyPressEvent ev s = Inr s' \<and> colors (palette s') = [] \<and> selected s' = - 1"
    if h: "count s = 1 \<and> selected s = 0 \<and> \<not> readonly s \<and> key ev = Key_Backspace"
  proof -
    from h have ok: "index_ok (palette s) 0" and len: "length (colors (palette s)) = 1"
      by (simp_all add: index_ok_def count_def palette_count_def)
    have sel: "selected (call_eraseColor 0 s) = - 1"
      using erase_selected [of s] h ok by simp
    have cnt: "count (call_eraseColor 0 s) = 0"
      using count_erase [OF ok] h by simp
    have col: "colors (palette (call_eraseColor 0 s)) = []"
      using ok len by (simp add: palette_eraseColor_def)
    from h assms sel cnt col show ?thesis
      by (simp add: keyPressEvent_def Let_def fbind_def setSelected_selected)
  qed
  show "keyPressEvent ev s = Inr s"
    if "0 < count s \<and> swatch_inv s \<and> readonly s \<and> key ev = Key_Backspace"
    using that assms setSelected_same [of s]
    by (simp add: keyPressEvent_def Let_def fbind_def)
  show "selected_after (keyPressEvent ev s) = Inr (selected s + 1)"
    if "0 \<le> selected s \<and> selected s < count s - 1 \<and> key ev = Key_Right"
    using that assms
    by (simp add: selected_after_def keyPressEvent_def Let_def fbind_def setSelected_selected)
  show "selected_after (keyPressEvent ev s) = Inr (selected s - 1)"
    if "0 < selected s \<and> selected s < count s \<and> key ev = Key_Left"
    using that assms
    by (simp add: selected_after_def keyPressEvent_def Let_def fbind_def setSelected_selected)
  show "keyPressEvent ev s = Inr s"
    if "0 < count s \<and> selected s = 0 \<and> key ev = Key_Left"
  proof -
    from that have "swatch_inv s" by (simp add: swatch_inv_def)
    from setSelected_same [OF this] that assms show ?thesis
      by (simp add: keyPressEvent_def Let_def fbind_def)
  qed
  show "\<exists>s'. keyPressEvent ev s = Inr s' \<and>
             palette s' = palette_eraseColor (palette s) (selected s) \<and>
             selected s' = (if count s = 1 then - 1 else qMax (selected s - 1) 0)"
    if h: "swatch_inv s \<and> selected s \<noteq> - 1 \<and> \<not> readonly s \<and> key ev = Key_Backspace"
  proof -
    from h have ok: "index_ok (palette s) (selected s)"
      by (simp add: inv_index_ok)
    then have rng: "0 \<le> selected s" "selected s < count s"
      by (simp_all add: index_ok_def count_def)
    have cnt: "count (call_eraseColor (selected s) s) = count s - 1"
      by (rule count_erase [OF ok])
    from h assms rng cnt show ?thesis
      by (auto simp: keyPressEvent_def Let_def fbind_def setSelected_selected qMax_def)
  qed
qed

theorem keyboard_navigation_witness:
  "rowcols (sample_swatch 5 0 100 100) = Inr (QSize 5 1) \<and>
   count (sample_swatch 5 0 100 100) = 5 \<and> selected (sample_swatch 5 0 100 100) = - 1 \<and>
   selected_after (keyPressEvent \<lparr>key = Key_Right, control = False\<rparr> (sample_swatch 5 0 100 100)) = Inr 0 \<and>
   selected_after (keyPressEvent \<lparr>key = Key_Left, control = False\<rparr> (sample_swatch 5 0 100 100)) = Inr 4 \<and>
   keyPressEvent \<lparr>key = Key_Right, control = False\<rparr> ((sample_swatch 5 0 100 100)\<lparr>selected := 4\<rparr>) =
     Inr ((sample_swatch 5 0 100 100)\<lparr>selected := 4\<rparr>) \<and>
   (\<exists>s'. keyPressEvent \<lparr>key = Key_Backspace, control = False\<rparr>
           ((sample_swatch 1 0 100 100)\<lparr>selected := 0\<rparr>) = Inr s' \<and>
         colors (palette s') = [] \<and> selected s' = - 1)"
proof -
  have rc5: "rowcols (sample_swatch 5 0 100 100) = Inr (QSize 5 1)"
    by (simp add: rowcols_def Let_def fbind_def fdiv_def idiv_def qMin_def signed_divide_int_def)
  have rc5': "rowcols ((sample_swatch 5 0 100 100)\<lparr>selected := 4\<rparr>) = Inr (QSize 5 1)"
    by (simp add: rowcols_def Let_def fbind_def fdiv_def idiv_def qMin_def signed_divide_int_def)
  have rc1: "rowcols ((sample_swatch 1 0 100 100)\<lparr>selected := 0\<rparr>) = Inr (QSize 1 1)"
    by (simp add: rowcols_def Let_def fbind_def fdiv_def idiv_def qMin_def signed_divide_int_def)
  from keyboard_navigation [OF rc5, of "\<lparr>key = Key_Right, control = False\<rparr>"]
    keyboard_navigation [OF rc5, of "\<lparr>key = Key_Left, control = False\<rparr>"]
    keyboard_navigation [OF rc5', of "\<lparr>key = Key_Right, control = False\<rparr>"]
    keyboard_navigation [OF rc1, of "\<lparr>key = Key_Backspace, control = False\<rparr>"]
    rc5
  show ?thesis by simp
qed


text \<open>
  Claim C10, as stated, fails: after the removal \<open>removeSelected\<close> calls
  \<open>setSelected\<close> once more. With the middle one of three entries selected, Delete
  leaves index 1 selected, and the log shows the selection cleared by the listener
  and then set again.
\<close>

theorem delete_reselects_counterexample:
  "swatch_inv ((sample_swatch 3 0 100 100)\<lparr>selected := 1\<rparr>) \<and>
   selected_after (keyPressEvent \<lparr>key = Key_Delete, control = False\<rparr>
      ((sample_swatch 3 0 100 100)\<lparr>selected := 1\<rparr>)) = Inr 1 \<and>
   events_after (keyPressEvent \<lparr>key = Key_Delete, control = False\<rparr>
      ((sample_swatch 3 0 100 100)\<lparr>selected := 1\<rparr>)) =
     Inr [Update, ColorSelected (QColor Rgb 65535 65535 0 0), PaletteColorAt 1 2,
          SelectedChanged 1, Update, SelectedChanged (- 1), PaletteEraseColor 1 3]"
  by (simp add: swatch_inv_def selected_after_def events_after_def keyPressEvent_def
      removeSelected_def Let_def fbind_def
      setSelected_def clearSelection_def call_eraseColor_def on_colorRemoved_def
      call_colorAt_def emit_def index_ok_def palette_count_def palette_eraseColor_def
      palette_colorAt_def sample_swatch_def sample_palette_def swatch_init_def qMin_def count_def
      rowcols_def fdiv_def idiv_def signed_divide_int_def)


text \<open>
  Claim C10, amended. When Delete is pressed with a selection, in a widget that is not
  read-only and whose layout is computed without fault, the selected entry is erased
  from the palette, the listener of the removal clears the selection, and the handler
  then calls \<open>setSelected\<close> with the smaller of the old index and the new last
  index: the selection ends on that index, and is none only when the palette has
  become empty.
\<close>

theorem delete_removes_and_reselects:
  assumes "rowcols s = Inr rc" "swatch_inv s" "selected s \<noteq> - 1" "\<not> readonly s"
    "key ev = Key_Delete"
  shows "\<exists>s'. keyPressEvent ev s = Inr s' \<and>
     palette s' = palette_eraseColor (palette s) (selected s) \<and>
     count s' = count s - 1 \<and>
     selected s' = (if count s = 1 then - 1 else qMin (selected s) (count s - 2)) \<and>
     events s' =
       (if count s = 1 then []
        else [Update,
              ColorSelected (palette_colorAt (palette s') (qMin (selected s) (count s - 2))),
              PaletteColorAt (qMin (selected s) (count s - 2)) (count s - 1),
              SelectedChanged (qMin (selected s) (count s - 2))]) @
       [Update, SelectedChanged (- 1), PaletteEraseColor (selected s) (count s)] @ events s"
proof -
  from assms(2,3) have ok: "index_ok (palette s) (selected s)"
    by (rule inv_index_ok)
  then have pos: "0 \<le> selected s" "selected s < count s" "0 < count s"
    by (simp_all add: index_ok_def count_def)
  define s1 where "s1 = call_eraseColor (selected s) s"
  have sel1: "selected s1 = - 1"
    using erase_selected [of s] ok by (simp add: s1_def)
  have cnt1: "count s1 = count s - 1"
    using count_erase [OF ok] by (simp add: s1_def)
  have ev1: "events s1 = Update # SelectedChanged (- 1) # PaletteEraseColor (selected s) (count s) # events s"
    using erase_events [OF ok] by (simp add: s1_def)
  have pal1: "palette s1 = palette_eraseColor (palette s) (selected s)"
    by (simp add: s1_def)
  define k where "k = qMin (selected s) (count s1 - 1)"
  have key: "keyPressEvent ev s = Inr (setSelected k s1)"
    using assms pos by (simp add: keyPressEvent_def Let_def fbind_def removeSelected_def s1_def k_def)
  show ?thesis
  proof (cases "count s = 1")
    case True
    then have k: "k = - 1" using pos cnt1 by (simp add: k_def qMin_def)
    have "setSelected (- 1) s1 = s1"
      using sel1 by (simp add: setSelected_def Let_def)
    with True key k sel1 cnt1 ev1 pal1 show ?thesis by simp
  next
    case False
    then have k: "k = qMin (selected s) (count s - 2)" "0 \<le> k" "k < count s1"
      using pos cnt1 by (auto simp: k_def qMin_def)
    from False key k sel1 cnt1 ev1 pal1 setSelected_events [OF k(2,3) sel1] show ?thesis
      by (simp add: setSelected_selected)
  qed
qed

theorem delete_removes_and_reselects_witness:
  "rowcols ((sample_swatch 3 0 100 100)\<lparr>selected := 2\<rparr>) = Inr (QSize 3 1) \<and>
   swatch_inv ((sample_swatch 3 0 100 100)\<lparr>selected := 2\<rparr>) \<and>
   (\<exists>s'. keyPressEvent \<lparr>key = Key_Delete, control = False\<rparr>
           ((sample_swatch 3 0 100 100)\<lparr>selected := 2\<rparr>) = Inr s' \<and>
         count s' = 2 \<and> selected s' = 1)"
proof -
  let ?s = "(sample_swatch 3 0 100 100)\<lparr>selected := 2\<rparr>"
  have rc: "rowcols ?s = Inr (QSize 3 1)"
    by (simp add: rowcols_def Let_def fbind_def fdiv_def idiv_def qMin_def signed_divide_int_def)
  have inv: "swatch_inv ?s"
    by (simp add: swatch_inv_def)
  from delete_removes_and_reselects [OF rc inv, of "\<lparr>key = Key_Delete, control = False\<rparr>"]
  obtain s' where "keyPressEvent \<lparr>key = Key_Delete, control = False\<rparr> ?s = Inr s'"
    "count s' = count ?s - 1"
    "selected s' = (if count ?s = 1 then - 1 else qMin (selected ?s) (count ?s - 2))"
    by auto
  then have "keyPressEvent \<lparr>key = Key_Delete, control = False\<rparr> ?s = Inr s' \<and>
         count s' = 2 \<and> selected s' = 1"
    by (simp add: qMin_def)
  with rc inv show ?thesis by blast
qed


section \<open>Properties of the drop resolution\<close>

lemmas eval_defs =
  drop_result_def dropEvent_def overwrite_if_def may_overwrite_def call_colorAt_def emit_def
  pos_def toPoint_def qRound_def to_int_def
  rowcols_def indexAt_def indexRect_def indexRect_in_def actualColorSize_def Let_def
  fbind_def fdiv_def idiv_def imod_def qMin_def qMax_def qBound_def QSize_isEmpty_def
  QSize_isValid_def QRectF_isValid_def signed_divide_int_def signed_modulo_int_def
  count_def palette_count_def palette_colorAt_def index_ok_def
  sample_swatch_def sample_palette_def swatch_init_def

lemma geometry_frame:
  assumes "palette t = palette s" "forced_rows t = forced_rows s"
    "forced_columns t = forced_columns s" "owner_width t = owner_width s"
    "owner_height t = owner_height s" "color_size t = color_size s" "margin t = margin s"
  shows "rowcols t = rowcols s" "indexRect t i = indexRect s i" "indexAt t pt = indexAt s pt"
proof -
  show rc: "rowcols t = rowcols s"
    using assms by (simp add: rowcols_def count_def Let_def)
  have acs: "actualColorSize t = actualColorSize s"
    using assms by (simp add: actualColorSize_def fun_eq_iff)
  have iri: "indexRect_in t = indexRect_in s"
    using assms by (simp add: indexRect_in_def fun_eq_iff)
  show "indexRect t i = indexRect s i"
    by (simp add: indexRect_def rc acs iri cong: if_cong)
  show "indexAt t pt = indexAt s pt"
    by (simp add: indexAt_def count_def rc acs assms(1) cong: if_cong)
qed

lemma drop_prepared_fields:
  "palette (drop_prepared ev i s) = palette s"
  "forced_rows (drop_prepared ev i s) = forced_rows s"
  "forced_columns (drop_prepared ev i s) = forced_columns s"
  "owner_width (drop_prepared ev i s) = owner_width s"
  "owner_height (drop_prepared ev i s) = owner_height s"
  "color_size (drop_prepared ev i s) = color_size s"
  "margin (drop_prepared ev i s) = margin s"
  "emptyColor (drop_prepared ev i s) = emptyColor s"
  "events (drop_prepared ev i s) = events s"
  "count (drop_prepared ev i s) = count s"
  "drop_index (drop_prepared ev i s) = (if i = - 1 then count s else i)"
  "drop_overwrite (drop_prepared ev i s) = False"
  by (simp_all add: drop_prepared_def Let_def count_def)

lemma dropEvent_prepared:
  "dropEvent ev s =
     fbind (indexAt s (pos ev))
       (\<lambda>i. fbind (indexRect s (if i = - 1 then count s else i))
          (\<lambda>drop_rect.
             Inr (emit Update
               (if i \<noteq> - 1 \<and> QRectF_isValid drop_rect
                then
                  (if columns (palette s) = 1 \<or> forced_columns s = 1
                   then
                     (if ry drop_rect + rh drop_rect * 3 / 4 \<le> ypF (posF ev)
                      then (drop_prepared ev i s)\<lparr>drop_index := i + 1\<rparr>
                      else overwrite_if (ry drop_rect + rh drop_rect / 4 < xpF (posF ev)) ev
                             (drop_prepared ev i s))
                   else
                     (if rx drop_rect + rw drop_rect * 3 / 4 \<le> xpF (posF ev)
                      then (drop_prepared ev i s)\<lparr>drop_index := i + 1\<rparr>
                      else overwrite_if (rx drop_rect + rw drop_rect / 4 < xpF (posF ev)) ev
                             (drop_prepared ev i s)))
                else drop_prepared ev i s))))"
proof -
  have a: "dropEvent ev s =
     fbind (indexAt s (pos ev))
       (\<lambda>i. let s3 = drop_prepared ev i s in
          fbind (indexRect s3 (drop_index s3))
          (\<lambda>drop_rect.
             Inr (emit Update
               (if drop_index s3 < count s3 \<and> QRectF_isValid drop_rect
                then
                  (if columns (palette s3) = 1 \<or> forced_columns s3 = 1
                   then
                     (if ry drop_rect + rh drop_rect * 3 / 4 \<le> ypF (posF ev)
                      then s3\<lparr>drop_index := drop_index s3 + 1\<rparr>
                      else overwrite_if (ry drop_rect + rh drop_rect / 4 < xpF (posF ev)) ev s3)
                   else
                     (if rx drop_rect + rw drop_rect * 3 / 4 \<le> xpF (posF ev)
                      then s3\<lparr>drop_index := drop_index s3 + 1\<rparr>
                      else overwrite_if (rx drop_rect + rw drop_rect / 4 < xpF (posF ev)) ev s3))
                else s3))))"
    unfolding dropEvent_def drop_prepared_def Let_def ..
  have b: "indexRect (drop_prepared ev i s) k = indexRect s k" for i k
    by (rule geometry_frame(2)) (simp_all add: drop_prepared_fields)
  show ?thesis
  proof (cases "indexAt s (pos ev)")
    case (Inl e)
    then show ?thesis unfolding a by (simp add: fbind_def)
  next
    case (Inr i)
    from indexAt_range [OF Inr] show ?thesis
    proof
      assume "i = - 1"
      with Inr show ?thesis
        unfolding a
        by (simp add: fbind_def Let_def b drop_prepared_fields cong: if_cong sum.case_cong)
    next
      assume "0 \<le> i \<and> i < count s"
      then have "i \<noteq> - 1" "i < count s" by auto
      with Inr show ?thesis
        unfolding a
        by (simp add: fbind_def Let_def b drop_prepared_fields cong: if_cong sum.case_cong)
    qed
  qed
qed

lemma horizontal_drop:
  assumes "indexAt s (pos ev) = Inr i" "i \<noteq> - 1" "indexRect s i = Inr r" "QRectF_isValid r"
    "columns (palette s) \<noteq> 1" "forced_columns s \<noteq> 1"
  shows "(rx r + rw r * 3 / 4 \<le> xpF (posF ev) \<longrightarrow> drop_result ev s = Inr (i + 1, False)) \<and>
         (xpF (posF ev) < rx r + rw r * 3 / 4 \<and> rx r + rw r / 4 < xpF (posF ev) \<and>
          palette_colorAt (palette s) i = emptyColor s \<longrightarrow> drop_result ev s = Inr (i, True))"
proof -
  have ov: "drop_overwrite (overwrite_if True ev (drop_prepared ev i s)) \<and>
            drop_index (overwrite_if True ev (drop_prepared ev i s)) = i"
    if "palette_colorAt (palette s) i = emptyColor s"
    using that assms(2)
    by (simp add: overwrite_if_def may_overwrite_def call_colorAt_def emit_def
        drop_prepared_fields)
  show ?thesis
    using assms ov
    by (auto simp: drop_result_def dropEvent_prepared fbind_def emit_def drop_prepared_fields)
qed

lemma vertical_drop_insert_after:
  assumes "indexAt s (pos ev) = Inr i" "i \<noteq> - 1" "indexRect s i = Inr r" "QRectF_isValid r"
    "columns (palette s) = 1 \<or> forced_columns s = 1"
    "ry r + rh r * 3 / 4 \<le> ypF (posF ev)"
  shows "drop_result ev s = Inr (i + 1, False)"
  using assms
  by (auto simp: drop_result_def dropEvent_prepared fbind_def emit_def drop_prepared_fields)


text \<open>
  Claim C3 fails on the code. Two entries in one column (column hint 1) in a widget of
  100 by 200 pixels give cells of 100 by 100. A copy dragged to \<open>(10, 50)\<close> is past
  the first quarter of the height of cell 0 and before its last quarter, but the
  code compares the pointer's \<open>x\<close> with \<open>top + height / 4\<close> and does not
  overwrite; at \<open>(90, 10)\<close>, within the first quarter of the height, it does.
\<close>

theorem single_column_overwrite_tests_x:
  "rowcols (sample_swatch 2 1 100 200) = Inr (QSize 1 2) \<and>
   indexAt (sample_swatch 2 1 100 200) (pos (copy_drop 10 50)) = Inr 0 \<and>
   indexRect (sample_swatch 2 1 100 200) 0 = Inr (QRectF 0 0 100 100) \<and>
   drop_result (copy_drop 10 50) (sample_swatch 2 1 100 200) = Inr (0, False) \<and>
   indexAt (sample_swatch 2 1 100 200) (pos (copy_drop 90 10)) = Inr 0 \<and>
   drop_result (copy_drop 90 10) (sample_swatch 2 1 100 200) = Inr (0, True)"
  by (simp add: eval_defs copy_drop_def)

text \<open>
  Claim C4 fails on the code. With column hint 1 and two forced columns the layout has
  two columns, but \<open>dropEvent\<close> tests the hint and takes the single-column branch:
  a pointer at \<open>(40, 10)\<close>, in the last quarter of the width of cell 0, gives no
  insertion after the cell. Where neither the hint nor the forced column count is 1,
  lemma \<open>horizontal_drop\<close> gives the two dispositions of the claim.
\<close>

theorem forced_columns_over_hint_uses_vertical:
  "rowcols ((sample_swatch 2 1 100 100)\<lparr>forced_columns := 2\<rparr>) = Inr (QSize 2 1) \<and>
   indexAt ((sample_swatch 2 1 100 100)\<lparr>forced_columns := 2\<rparr>) (pos (move_drop 40 10)) = Inr 0 \<and>
   indexRect ((sample_swatch 2 1 100 100)\<lparr>forced_columns := 2\<rparr>) 0 = Inr (QRectF 0 0 50 100) \<and>
   drop_result (move_drop 40 10) ((sample_swatch 2 1 100 100)\<lparr>forced_columns := 2\<rparr>) =
     Inr (0, False) \<and>
   drop_result (copy_drop 40 10) ((sample_swatch 2 1 100 100)\<lparr>forced_columns := 2\<rparr>) =
     Inr (0, True)"
  by (simp add: eval_defs copy_drop_def move_drop_def)

end
